theory Spec2Isabelle
  imports Complex_Main
begin

section \<open>Python values and exceptions\<close>

text \<open>
  The simulator is Python. In the scanner floats are modelled as the reals
  (\<open>math.cos\<close> and \<open>math.sin\<close> as \<open>cos\<close> and \<open>sin\<close>). In the constructor of the
  scan state, where the outcome turns on rounding, the double operations are the exact
  ones followed by a rounding function, which is a parameter of the model. Arguments
  that the code inspects at run time (the pose handed to \<open>scan\<close>, the vertex lists handed
  to \<open>GeometricMap\<close>) are dynamically typed values; every \<open>raise\<close> of the source, and every
  exception of an operation it calls, is an \<open>Inl\<close> of the result.
\<close>

datatype error =
  ValueError | TypeError | IndexError | KeyError | AttributeError | ZeroDivisionError

datatype pyval =
    PNone
  | PNum real
  | PStr string
  | PList "pyval list"
  | PTuple "pyval list"
  | PDict "(pyval \<times> pyval) list"

type_synonym PathNode = "real \<times> real"

text \<open>\<open>v + <float>\<close> and \<open>float(v)\<close> on a value: only a number goes through; a string, a
  list, a tuple, a dict and \<open>None\<close> raise \<open>TypeError\<close>.\<close>

fun py_float :: "pyval \<Rightarrow> error + real" where
  "py_float (PNum r) = Inr r"
| "py_float _ = Inl TypeError"

text \<open>\<open>isinstance(v, list)\<close>.\<close>

fun is_list :: "pyval \<Rightarrow> bool" where
  "is_list (PList _) = True"
| "is_list _ = False"

text \<open>\<open>len(v)\<close>: numbers and \<open>None\<close> have no length.\<close>

fun py_len :: "pyval \<Rightarrow> error + nat" where
  "py_len (PList xs) = Inr (length xs)"
| "py_len (PTuple xs) = Inr (length xs)"
| "py_len (PStr s) = Inr (length s)"
| "py_len (PDict kvs) = Inr (length kvs)"
| "py_len _ = Inl TypeError"

section \<open>laser\_output.py: LaserScanOutput\<close>

record LaserScanConfig =
  cfg_angle_min :: real
  cfg_angle_max :: real
  cfg_angle_increment :: real
  cfg_range_min :: real
  cfg_range_max :: real
  cfg_frame_id :: string

record LaserScanOutput =
  timestamp :: real
  frame_id :: string
  state :: "pyval list"
  angle_min :: real
  angle_max :: real
  angle_increment :: real
  angles :: "real list"
  range_min :: real
  range_max :: real
  ranges :: "real list"
  beam_end_points :: "PathNode list"

text \<open>
  Double arithmetic and numpy are not part of the repository. \<open>rnd\<close> rounds a real to
  the nearest double: the double sum, difference and quotient of two doubles are \<open>rnd\<close>
  of the exact ones. \<open>np_arange\<close> is \<open>numpy.arange(start, stop, step)\<close>, which may raise.
\<close>

record numerics =
  rnd :: "real \<Rightarrow> real"
  np_arange :: "real \<Rightarrow> real \<Rightarrow> real \<Rightarrow> error + real list"

text \<open>The dataclass constructor with the six fields \<open>from_config\<close> passes; the other fields
  take their defaults (\<open>timestamp = 0.0\<close>, empty \<open>_state\<close>, \<open>_ranges\<close>, \<open>_beam_end_points\<close>).
  \<open>__post_init__\<close> validates, warns and then derives \<open>_angles\<close> from
  \<open>np.arange(angle_min, angle_max + angle_increment / 2, angle_increment)\<close>. The second
  component is the list of warnings emitted, also when \<open>np.arange\<close> raises after the
  warning.\<close>

definition fov_warning :: string where
  "fov_warning = ''Assumeing the heading direction is 0.0 rad, angle_min is expected to be negative and angle_max is expected to be positive.''"

definition post_init :: "numerics \<Rightarrow> LaserScanOutput \<Rightarrow> (error + LaserScanOutput) \<times> string list" where
  "post_init nm self =
     (if angle_min self > angle_max self then (Inl ValueError, [])
      else if angle_increment self \<le> 0 \<or>
              angle_increment self > rnd nm (angle_max self - angle_min self)
        then (Inl ValueError, [])
      else
        (let ws = (if angle_min self \<ge> 0 \<or> angle_max self \<le> 0 then [fov_warning] else [])
         in case np_arange nm (angle_min self)
                   (rnd nm (angle_max self + rnd nm (angle_increment self / 2)))
                   (angle_increment self) of
              Inl e \<Rightarrow> (Inl e, ws)
            | Inr as \<Rightarrow> (Inr (self\<lparr>angles := as\<rparr>), ws)))"

definition from_config :: "numerics \<Rightarrow> LaserScanConfig
    \<Rightarrow> (error + LaserScanOutput) \<times> string list" where
  "from_config nm config =
     post_init nm \<lparr>timestamp = 0, frame_id = cfg_frame_id config, state = [],
                angle_min = cfg_angle_min config, angle_max = cfg_angle_max config,
                angle_increment = cfg_angle_increment config, angles = [],
                range_min = cfg_range_min config, range_max = cfg_range_max config,
                ranges = [], beam_end_points = []\<rparr>"

text \<open>\<open>init_beams\<close>: the three assignments, then the loop that appends one end point per
  angle. \<open>heading + angle\<close> and \<open>current_position[k] + ...\<close> raise \<open>TypeError\<close> on a
  component that is not a number; what was assigned and appended before stays.\<close>

fun init_beams_loop :: "pyval list \<Rightarrow> pyval \<Rightarrow> real list \<Rightarrow> LaserScanOutput
    \<Rightarrow> (error + unit) \<times> LaserScanOutput" where
  "init_beams_loop current_position heading [] self = (Inr (), self)"
| "init_beams_loop current_position heading (angle # rest) self =
     (case py_float heading of Inl e \<Rightarrow> (Inl e, self)
      | Inr h \<Rightarrow>
     (case py_float (current_position ! 0) of Inl e \<Rightarrow> (Inl e, self)
      | Inr px \<Rightarrow>
     (case py_float (current_position ! 1) of Inl e \<Rightarrow> (Inl e, self)
      | Inr py \<Rightarrow>
        init_beams_loop current_position heading rest
          (self\<lparr>beam_end_points := beam_end_points self @
                   [(px + range_max self * cos (h + angle),
                     py + range_max self * sin (h + angle))]\<rparr>))))"

definition init_beams :: "pyval list \<Rightarrow> pyval \<Rightarrow> LaserScanOutput
    \<Rightarrow> (error + unit) \<times> LaserScanOutput" where
  "init_beams current_position heading self =
     (if length current_position < 2 then (Inl IndexError, self)
      else
        init_beams_loop current_position heading (angles self)
          (self\<lparr>state := [current_position ! 0, current_position ! 1, heading],
                 beam_end_points := [],
                 ranges := replicate (length (angles self)) (range_max self)\<rparr>))"

text \<open>\<open>update_ranges_and_beams\<close>: both length checks come before the first assignment.\<close>

definition update_ranges_and_beams :: "real \<Rightarrow> real list \<Rightarrow> PathNode list \<Rightarrow> LaserScanOutput
    \<Rightarrow> (error + unit) \<times> LaserScanOutput" where
  "update_ranges_and_beams current_time new_ranges new_beam_end_points self =
     (if length new_ranges \<noteq> length (ranges self) then (Inl ValueError, self)
      else if length new_beam_end_points \<noteq> length (beam_end_points self)
        then (Inl ValueError, self)
      else (Inr (), self\<lparr>timestamp := current_time, ranges := new_ranges,
                            beam_end_points := new_beam_end_points\<rparr>))"

section \<open>laser\_scanner.py: LaserScanner\<close>

text \<open>
  The scanner tests geometry with the shapely library, which is not part of the
  repository. Its operations are parameters of the model, over an abstract type \<open>'g\<close> of
  geometries: the constructors \<open>Polygon\<close> and \<open>LineString\<close> (which may reject a coordinate
  list), \<open>poly.contains(Point(x, y))\<close>, \<open>geo.is_valid\<close>, \<open>geo.buffer(0)\<close>,
  \<open>beam.intersects(geo)\<close>, \<open>beam.intersection(geo)\<close>, \<open>inter.is_empty\<close> and
  \<open>inter.distance(Point(x, y))\<close>.
\<close>

record 'g shapely =
  Polygon :: "PathNode list \<Rightarrow> error + 'g"
  LineString :: "PathNode list \<Rightarrow> error + 'g"
  contains :: "'g \<Rightarrow> PathNode \<Rightarrow> bool"
  is_valid :: "'g \<Rightarrow> bool"
  buffer0 :: "'g \<Rightarrow> 'g"
  intersects :: "'g \<Rightarrow> 'g \<Rightarrow> bool"
  intersection :: "'g \<Rightarrow> 'g \<Rightarrow> 'g"
  is_empty :: "'g \<Rightarrow> bool"
  distance :: "'g \<Rightarrow> PathNode \<Rightarrow> real"

record BasicMap =
  boundary_coords :: "PathNode list"
  obstacle_list :: "PathNode list list"

text \<open>The attributes \<open>_map\<close>, \<open>_state\<close> and \<open>laser_scan\<close> do not exist before \<open>load_map\<close>
  and \<open>load_scanner\<close> (\<open>None\<close> here; reading one raises \<open>AttributeError\<close>). \<open>warnings\<close> is
  the stream of \<open>warnings.warn\<close> messages.\<close>

record LaserScanner =
  cfg :: LaserScanConfig
  map_prepared :: bool
  scanner_prepared :: bool
  scanner_map :: "BasicMap option"
  scanner_state :: "pyval option"
  laser_scan :: "LaserScanOutput option"
  warnings :: "string list"

definition LaserScanner_init :: "LaserScanConfig \<Rightarrow> LaserScanner" where
  "LaserScanner_init config =
     \<lparr>cfg = config, map_prepared = False, scanner_prepared = False, scanner_map = None,
      scanner_state = None, laser_scan = None, warnings = []\<rparr>"

definition load_map :: "PathNode list \<Rightarrow> PathNode list list \<Rightarrow> LaserScanner \<Rightarrow> LaserScanner" where
  "load_map boundary obstacles self =
     self\<lparr>scanner_map := Some \<lparr>boundary_coords = boundary, obstacle_list = obstacles\<rparr>,
           map_prepared := True\<rparr>"

definition load_scanner :: "numerics \<Rightarrow> PathNode \<Rightarrow> real \<Rightarrow> LaserScanner
    \<Rightarrow> (error + unit) \<times> LaserScanner" where
  "load_scanner nm init_position init_heading self =
     (case from_config nm (cfg self) of
        (Inl e, ws) \<Rightarrow> (Inl e, self\<lparr>warnings := warnings self @ ws\<rparr>)
      | (Inr ls, ws) \<Rightarrow>
          (Inr (), self\<lparr>laser_scan := Some ls,
                         scanner_state := Some (PList [PNum (fst init_position),
                                                       PNum (snd init_position),
                                                       PNum init_heading]),
                         scanner_prepared := True,
                         warnings := warnings self @ ws\<rparr>))"

text \<open>The elements of a list or tuple value.\<close>

fun items :: "pyval \<Rightarrow> pyval list" where
  "items (PList xs) = xs"
| "items (PTuple xs) = xs"
| "items _ = []"

text \<open>\<open>geometries = [Polygon(obstacle) for obstacle in obstacle_list]\<close>: the first
  rejected obstacle raises.\<close>

fun build_polygons :: "'g shapely \<Rightarrow> PathNode list list \<Rightarrow> error + 'g list" where
  "build_polygons ops [] = Inr []"
| "build_polygons ops (obstacle # rest) =
     (case Polygon ops obstacle of Inl e \<Rightarrow> Inl e
      | Inr g \<Rightarrow> (case build_polygons ops rest of Inl e \<Rightarrow> Inl e
                  | Inr gs \<Rightarrow> Inr (g # gs)))"

text \<open>\<open>LineString(boundary_coords + [boundary_coords[0]])\<close>: indexing an empty boundary
  raises \<open>IndexError\<close>.\<close>

definition boundary_line :: "'g shapely \<Rightarrow> PathNode list \<Rightarrow> error + 'g" where
  "boundary_line ops boundary =
     (case boundary of [] \<Rightarrow> Inl IndexError
      | v # _ \<Rightarrow> LineString ops (boundary @ [v]))"

text \<open>The inner loop \<open>for geo in geometries\<close>, with \<open>closest_distance\<close> as accumulator.\<close>

fun closest_loop :: "'g shapely \<Rightarrow> 'g \<Rightarrow> PathNode \<Rightarrow> 'g list \<Rightarrow> real \<Rightarrow> real" where
  "closest_loop ops beam p [] closest_distance = closest_distance"
| "closest_loop ops beam p (geo # rest) closest_distance =
     (let geo' = (if \<not> is_valid ops geo then buffer0 ops geo else geo) in
      closest_loop ops beam p rest
        (if intersects ops beam geo' then
           (let inter = intersection ops beam geo' in
            if \<not> is_empty ops inter then
              (let d = distance ops inter p in
               if d < closest_distance then d else closest_distance)
            else closest_distance)
         else closest_distance))"

text \<open>The outer loop \<open>for i, relative_angle in enumerate(angles)\<close> over the copies
  \<open>new_ranges\<close> and \<open>new_beams\<close>; an index outside a copy raises \<open>IndexError\<close>.\<close>

fun beam_loop :: "'g shapely \<Rightarrow> PathNode \<Rightarrow> pyval \<Rightarrow> real \<Rightarrow> 'g list \<Rightarrow> (nat \<times> real) list
    \<Rightarrow> real list \<times> PathNode list \<Rightarrow> error + (real list \<times> PathNode list)" where
  "beam_loop ops p heading rmax geometries [] acc = Inr acc"
| "beam_loop ops p heading rmax geometries ((i, relative_angle) # rest) (new_ranges, new_beams) =
     (case py_float heading of Inl e \<Rightarrow> Inl e
      | Inr h \<Rightarrow>
     (let angle = h + relative_angle in
      case LineString ops [p, (fst p + rmax * cos angle, snd p + rmax * sin angle)] of
        Inl e \<Rightarrow> Inl e
      | Inr beam \<Rightarrow>
         (let closest_distance = closest_loop ops beam p geometries rmax in
          if \<not> i < length new_ranges then Inl IndexError
          else if \<not> i < length new_beams then Inl IndexError
          else beam_loop ops p heading rmax geometries rest
                 (new_ranges[i := closest_distance],
                  new_beams[i := (fst p + closest_distance * cos angle,
                                  snd p + closest_distance * sin angle)]))))"

definition outside_warning :: string where
  "outside_warning = ''Scanner is outside the boundary!''"

text \<open>\<open>scan\<close> after \<open>init_beams\<close> has returned: the containment test, the early return,
  the ray casting on local copies, and the commit.\<close>

definition scan_cast :: "'g shapely \<Rightarrow> real \<Rightarrow> pyval list \<Rightarrow> LaserScanOutput \<Rightarrow> LaserScanner
    \<Rightarrow> (error + LaserScanOutput) \<times> LaserScanner" where
  "scan_cast ops current_time cs ls self =
     (case scanner_map self of None \<Rightarrow> (Inl AttributeError, self)
      | Some m \<Rightarrow>
     (case Polygon ops (boundary_coords m) of Inl e \<Rightarrow> (Inl e, self)
      | Inr poly \<Rightarrow>
     (case py_float (cs ! 0) of Inl e \<Rightarrow> (Inl e, self)
      | Inr x \<Rightarrow>
     (case py_float (cs ! 1) of Inl e \<Rightarrow> (Inl e, self)
      | Inr y \<Rightarrow>
        if \<not> contains ops poly (x, y)
        then (Inr ls, self\<lparr>warnings := warnings self @ [outside_warning]\<rparr>)
        else
     (case build_polygons ops (obstacle_list m) of Inl e \<Rightarrow> (Inl e, self)
      | Inr polys \<Rightarrow>
     (case boundary_line ops (boundary_coords m) of Inl e \<Rightarrow> (Inl e, self)
      | Inr line \<Rightarrow>
     (case beam_loop ops (x, y) (cs ! 2) (range_max ls) (polys @ [line])
             (List.enumerate 0 (angles ls)) (ranges ls, beam_end_points ls) of
        Inl e \<Rightarrow> (Inl e, self)
      | Inr (new_ranges, new_beams) \<Rightarrow>
         (case update_ranges_and_beams current_time new_ranges new_beams ls of
            (Inl e, ls') \<Rightarrow> (Inl e, self\<lparr>laser_scan := Some ls'\<rparr>)
          | (Inr _, ls') \<Rightarrow> (Inr ls', self\<lparr>laser_scan := Some ls'\<rparr>)))))))))"

text \<open>\<open>scan\<close>: the three guards, then the assignments to \<open>_state\<close> and \<open>timestamp\<close>,
  \<open>init_beams(self.position, self.heading)\<close>, and the rest. The state returned with an
  error is the state at the moment of the raise. The result is the \<open>laser_scan\<close> object
  as it is on return.\<close>

definition scan :: "'g shapely \<Rightarrow> real \<Rightarrow> pyval \<Rightarrow> LaserScanner
    \<Rightarrow> (error + LaserScanOutput) \<times> LaserScanner" where
  "scan ops current_time current_state self =
     (if \<not> map_prepared self then (Inl ValueError, self)
      else if \<not> scanner_prepared self then (Inl ValueError, self)
      else if \<not> is_list current_state \<or> length (items current_state) \<noteq> 3
        then (Inl ValueError, self)
      else
        (let self1 = self\<lparr>scanner_state := Some current_state\<rparr> in
         case laser_scan self1 of None \<Rightarrow> (Inl AttributeError, self1)
         | Some ls0 \<Rightarrow>
            (case init_beams (take 2 (items current_state)) (items current_state ! 2)
                    (ls0\<lparr>timestamp := current_time\<rparr>) of
               (Inl e, ls1) \<Rightarrow> (Inl e, self1\<lparr>laser_scan := Some ls1\<rparr>)
             | (Inr _, ls1) \<Rightarrow>
                 scan_cast ops current_time (items current_state) ls1
                   (self1\<lparr>laser_scan := Some ls1\<rparr>))))"

section \<open>map\_geometric.py: GeometricMap\<close>

text \<open>\<open>_boundary_coords\<close> holds whatever \<open>register_boundary\<close> accepted;
  \<open>_obstacle_info_dict\<close> maps an obstacle's \<open>id_\<close> to its record. A dict value is
  the list of its items, with distinct keys.\<close>

record GeometricMap =
  gm_boundary_coords :: pyval
  obstacle_info_dict :: "pyval \<rightharpoonup> pyval"

text \<open>A dict key must be hashable: lists and dicts are not, a tuple is when its elements
  are.\<close>

fun hashable :: "pyval \<Rightarrow> bool" where
  "hashable (PList _) = False"
| "hashable (PDict _) = False"
| "hashable (PTuple xs) = list_all hashable xs"
| "hashable _ = True"

text \<open>\<open>len(vertices[0]) != 2\<close>: the test reads the first vertex only; an empty list
  raises \<open>IndexError\<close> at \<open>vertices[0]\<close>.\<close>

definition first_vertex_check :: "pyval \<Rightarrow> error + unit" where
  "first_vertex_check vertices =
     (case items vertices of [] \<Rightarrow> Inl IndexError
      | v # _ \<Rightarrow> (case py_len v of Inl e \<Rightarrow> Inl e
                  | Inr n \<Rightarrow> if n \<noteq> 2 then Inl TypeError else Inr ()))"

definition register_obstacle :: "pyval \<Rightarrow> GeometricMap \<Rightarrow> (error + unit) \<times> GeometricMap" where
  "register_obstacle obstacle self =
     (case obstacle of
        PDict kvs \<Rightarrow>
          (case map_of kvs (PStr ''vertices'') of None \<Rightarrow> (Inl ValueError, self)
           | Some vertices \<Rightarrow>
               if \<not> is_list vertices then (Inl TypeError, self)
               else (case first_vertex_check vertices of Inl e \<Rightarrow> (Inl e, self)
                     | Inr _ \<Rightarrow>
                        (case map_of kvs (PStr ''id_'') of None \<Rightarrow> (Inl KeyError, self)
                         | Some k \<Rightarrow>
                            if \<not> hashable k then (Inl TypeError, self)
                            else (Inr (), self\<lparr>obstacle_info_dict :=
                                                 (obstacle_info_dict self)(k \<mapsto> obstacle)\<rparr>))))
      | _ \<Rightarrow> (Inl TypeError, self))"

definition register_boundary :: "pyval \<Rightarrow> GeometricMap \<Rightarrow> (error + unit) \<times> GeometricMap" where
  "register_boundary vertices self =
     (if \<not> is_list vertices then (Inl TypeError, self)
      else (case first_vertex_check vertices of Inl e \<Rightarrow> (Inl e, self)
            | Inr _ \<Rightarrow> (Inr (), self\<lparr>gm_boundary_coords := vertices\<rparr>)))"

section \<open>Doubles and numpy.arange\<close>

text \<open>
  Round to nearest, ties to even, in binary64: a real that is not zero is rounded to a
  multiple of \<open>2 ^ e\<close>, where \<open>e\<close> is 52 below the exponent of its leading bit and at
  least -1074 (the subnormal doubles). Overflow to infinity is outside the model.
\<close>

definition round_half_even :: "real \<Rightarrow> int" where
  "round_half_even y =
     (let f = \<lfloor>y\<rfloor>
      in if y - of_int f < 1 / 2 then f
         else if 1 / 2 < y - of_int f then f + 1
         else if even f then f else f + 1)"

definition double_exponent :: "real \<Rightarrow> int" where
  "double_exponent x = max (\<lfloor>log 2 \<bar>x\<bar>\<rfloor> - 52) (- 1074)"

definition double_round :: "real \<Rightarrow> real" where
  "double_round x =
     (if x = 0 then 0
      else of_int (round_half_even (x / 2 powr of_int (double_exponent x)))
             * 2 powr of_int (double_exponent x))"

text \<open>
  \<open>numpy.arange\<close> on three Python floats, as numpy computes it: the length is the
  ceiling of the double quotient of the double difference; the first element is
  \<open>start\<close>, the second the double sum \<open>start + step\<close>, and element \<open>i\<close> after that is
  \<open>start + i * delta\<close> in doubles, where \<open>delta\<close> is the double difference of the first
  two. \<open>alloc n\<close> is the exception numpy raises when it cannot create an array of \<open>n\<close>
  elements on the platform (\<open>None\<close> when it can). A zero step raises at the division.
\<close>

definition arange_double :: "(real \<Rightarrow> real) \<Rightarrow> (int \<Rightarrow> error option)
    \<Rightarrow> real \<Rightarrow> real \<Rightarrow> real \<Rightarrow> error + real list" where
  "arange_double r alloc start stop step =
     (if step = 0 then Inl ZeroDivisionError
      else
        (let n = \<lceil>r (r (stop - start) / step)\<rceil>
         in if n \<le> 0 then Inr []
            else (case alloc n of
                    Some e \<Rightarrow> Inl e
                  | None \<Rightarrow>
                      (let next = r (start + step); delta = r (next - start)
                       in Inr (map (\<lambda>i. if i = 0 then start
                                         else if i = 1 then next
                                         else r (start + r (real i * delta)))
                                 [0..<nat n])))))"

text \<open>Python with binary64 floats, on a platform where numpy creates every array of fewer
  than \<open>2 ^ 32\<close> elements and refuses a longer one.\<close>

definition double_numerics :: numerics where
  "double_numerics =
     \<lparr>rnd = double_round,
      np_arange = arange_double double_round
                    (\<lambda>n. if n < 2 ^ 32 then None else Some ValueError)\<rparr>"

text \<open>
  The fan as the specification describes it, in exact arithmetic: the angles
  \<open>angle_min + i * angle_increment\<close> below \<open>angle_max + angle_increment / 2\<close>. It is what
  the constructor computes when no operation rounds, and it stands in for numpy where a
  scenario is run.
\<close>

definition exact_arange :: "real \<Rightarrow> real \<Rightarrow> real \<Rightarrow> real list" where
  "exact_arange start stop step =
     map (\<lambda>i. start + real i * step) [0..<nat \<lceil>(stop - start) / step\<rceil>]"

definition exact_numerics :: numerics where
  "exact_numerics = \<lparr>rnd = (\<lambda>x. x), np_arange = (\<lambda>a b s. Inr (exact_arange a b s))\<rparr>"


section \<open>The range of one beam, as specified\<close>

text \<open>
  The statement the scanner is checked against, in the words of the specification: a
  geometry that is not valid is repaired first; the beam is intersected with it; when the
  intersection is not empty the geometry contributes the distance from the sensor to the
  intersection. The range of the beam is the least contribution, floored at 0 and capped
  at \<open>range_max\<close>, and \<open>range_max\<close> when no geometry contributes.
\<close>

definition spec_hit_distance :: "'g shapely \<Rightarrow> 'g \<Rightarrow> PathNode \<Rightarrow> 'g \<Rightarrow> real option" where
  "spec_hit_distance ops beam p geo =
     (let g = (if is_valid ops geo then geo else buffer0 ops geo);
          inter = intersection ops beam g
      in if is_empty ops inter then None else Some (distance ops inter p))"

definition spec_beam_range :: "'g shapely \<Rightarrow> real \<Rightarrow> 'g \<Rightarrow> PathNode \<Rightarrow> 'g list \<Rightarrow> real" where
  "spec_beam_range ops rmax beam p geos =
     (let ds = List.map_filter (spec_hit_distance ops beam p) geos
      in if ds = [] then rmax else min rmax (max 0 (Min (set ds))))"

section \<open>A world of axis-parallel boxes\<close>

text \<open>
  A concrete geometry library to run the scanner on: a geometry is its coordinate list,
  tagged as a filled region or as a curve, and is treated through its bounding box. This
  is exact for axis-parallel rectangles met by axis-parallel beams: the beam clipped to
  the box is their intersection with a filled rectangle, and the clipped end points that
  lie on the box's edges are the intersection with its outline. Distances are taken to
  the listed points in the 1-norm, which is the Euclidean distance along an axis.
\<close>

datatype box_geom = Filled "PathNode list" | Curve "PathNode list" | Nothing

fun coords :: "box_geom \<Rightarrow> PathNode list" where
  "coords (Filled cs) = cs"
| "coords (Curve cs) = cs"
| "coords Nothing = []"

definition lo :: "real list \<Rightarrow> real" where
  "lo xs = fold min (tl xs) (hd xs)"

definition hi :: "real list \<Rightarrow> real" where
  "hi xs = fold max (tl xs) (hd xs)"

definition box_contains :: "box_geom \<Rightarrow> PathNode \<Rightarrow> bool" where
  "box_contains g p =
     (case g of
        Filled cs \<Rightarrow> cs \<noteq> [] \<and> lo (map fst cs) < fst p \<and> fst p < hi (map fst cs) \<and>
                     lo (map snd cs) < snd p \<and> snd p < hi (map snd cs)
      | _ \<Rightarrow> False)"

definition on_outline :: "PathNode list \<Rightarrow> PathNode \<Rightarrow> bool" where
  "on_outline cs p =
     (fst p = lo (map fst cs) \<or> fst p = hi (map fst cs) \<or>
      snd p = lo (map snd cs) \<or> snd p = hi (map snd cs))"

definition box_intersection :: "box_geom \<Rightarrow> box_geom \<Rightarrow> box_geom" where
  "box_intersection beam geo =
     (if coords beam = [] \<or> coords geo = [] then Nothing
      else
        (let x0 = max (lo (map fst (coords beam))) (lo (map fst (coords geo)));
             x1 = min (hi (map fst (coords beam))) (hi (map fst (coords geo)));
             y0 = max (lo (map snd (coords beam))) (lo (map snd (coords geo)));
             y1 = min (hi (map snd (coords beam))) (hi (map snd (coords geo)))
         in if x1 < x0 \<or> y1 < y0 then Nothing
            else (case geo of
                    Filled cs \<Rightarrow> Curve [(x0, y0), (x1, y1)]
                  | Curve cs \<Rightarrow>
                      (case filter (on_outline cs) [(x0, y0), (x1, y1)] of
                         [] \<Rightarrow> Nothing
                       | ps \<Rightarrow> Curve ps)
                  | Nothing \<Rightarrow> Nothing)))"

definition box_distance :: "box_geom \<Rightarrow> PathNode \<Rightarrow> real" where
  "box_distance g p =
     (case coords g of [] \<Rightarrow> 0
      | cs \<Rightarrow> lo (map (\<lambda>c. \<bar>fst c - fst p\<bar> + \<bar>snd c - snd p\<bar>) cs))"

definition box_shapely :: "box_geom shapely" where
  "box_shapely =
     \<lparr>Polygon = (\<lambda>cs. if length cs < 3 then Inl ValueError else Inr (Filled cs)),
      LineString = (\<lambda>cs. if length cs < 2 then Inl ValueError else Inr (Curve cs)),
      contains = box_contains,
      is_valid = (\<lambda>g. True),
      buffer0 = (\<lambda>g. g),
      intersects = (\<lambda>beam geo. box_intersection beam geo \<noteq> Nothing),
      intersection = box_intersection,
      is_empty = (\<lambda>g. g = Nothing),
      distance = box_distance\<rparr>"

text \<open>The scenario: a 10 by 10 room with a 2 by 2 block in the middle, and a sensor
  with three beams, a quarter turn apart, of reach 4.\<close>

definition room :: "PathNode list" where
  "room = [(0, 0), (10, 0), (10, 10), (0, 10)]"

definition block :: "PathNode list" where
  "block = [(4, 4), (6, 4), (6, 6), (4, 6)]"

definition three_beams :: LaserScanConfig where
  "three_beams = \<lparr>cfg_angle_min = - (pi / 2), cfg_angle_max = pi / 2,
                   cfg_angle_increment = pi / 2, cfg_range_min = 0, cfg_range_max = 4,
                   cfg_frame_id = ''laser''\<rparr>"

definition three_beam_output :: LaserScanOutput where
  "three_beam_output = \<lparr>timestamp = 0, frame_id = ''laser'', state = [],
       angle_min = - (pi / 2), angle_max = pi / 2, angle_increment = pi / 2,
       angles = [- (pi / 2), 0, pi / 2], range_min = 0, range_max = 4,
       ranges = [], beam_end_points = []\<rparr>"

definition ready_scanner :: LaserScanner where
  "ready_scanner =
     snd (load_scanner exact_numerics (5, 1) 0
            (load_map room [block] (LaserScanner_init three_beams)))"

text \<open>The scan state without the fields a scan writes: what a later scan can depend
  on.\<close>

abbreviation forget :: "LaserScanOutput \<Rightarrow> LaserScanOutput" where
  "forget ls \<equiv> ls\<lparr>timestamp := 0, state := [], ranges := [], beam_end_points := []\<rparr>"

section \<open>Rounding to double\<close>

lemma double_round_scaled:
  assumes lo: "2 ^ 52 \<le> \<bar>x\<bar> * 2 ^ n" and hi: "\<bar>x\<bar> * 2 ^ n < 2 ^ 53" and n: "n \<le> 1074"
  shows "double_round x = of_int (round_half_even (x * 2 ^ n)) / 2 ^ n"
proof -
  have x0: "x \<noteq> 0" using lo by auto
  then have ax: "0 < \<bar>x\<bar>" by simp
  have p: "(2::real) powr (of_int (52 - int n)) = 2 ^ 52 / 2 ^ n"
    by (simp add: powr_diff powr_realpow of_nat_diff)
  have "(2::real) powr (of_int (52 - int n) + 1) = 2 powr of_int (52 - int n) * 2 powr 1"
    by (rule powr_add)
  also have "\<dots> = 2 ^ 52 / 2 ^ n * 2" by (simp only: p) simp
  finally have p1: "(2::real) powr (of_int (52 - int n) + 1) = 2 ^ 53 / 2 ^ n" by simp
  have "\<lfloor>log 2 \<bar>x\<bar>\<rfloor> = 52 - int n"
  proof (subst floor_log_eq_powr_iff[OF ax])
    show "(1::real) < 2" by simp
    have b1: "2 ^ 52 / 2 ^ n \<le> \<bar>x\<bar>" using lo by (simp add: field_simps)
    have b2: "\<bar>x\<bar> < 2 ^ 53 / 2 ^ n" using hi by (simp add: field_simps)
    have c: "real_of_int (52 - int n + 1) = of_int (52 - int n) + 1" by simp
    show "2 powr real_of_int (52 - int n) \<le> \<bar>x\<bar> \<and> \<bar>x\<bar> < 2 powr real_of_int (52 - int n + 1)"
      unfolding c p p1 using b1 b2 by blast
  qed
  then have e: "double_exponent x = - int n" using n by (simp add: double_exponent_def)
  have q: "(2::real) powr (- real n) = 1 / 2 ^ n"
    by (simp add: powr_minus powr_realpow divide_inverse)
  show ?thesis using x0 by (simp add: double_round_def e q)
qed

lemma dr_half: "double_round (1 / 2) = 1 / 2"
  by (subst double_round_scaled[where n = 53]) (simp_all add: round_half_even_def)

lemma dr_one: "double_round 1 = 1"
  by (subst double_round_scaled[where n = 52]) (simp_all add: round_half_even_def)

lemma dr_three_halves: "double_round (3 / 2) = 3 / 2"
  by (subst double_round_scaled[where n = 52]) (simp_all add: round_half_even_def)

lemma dr_two: "double_round 2 = 2"
  by (subst double_round_scaled[where n = 51]) (simp_all add: round_half_even_def)

lemma dr_absorb: "double_round (1 - 1 / 2 ^ 60) = 1"
  by (subst double_round_scaled[where n = 53]) (simp_all add: round_half_even_def)

lemma dr_absorb2: "double_round (3 / 2 - 1 / 2 ^ 60) = 3 / 2"
  by (subst double_round_scaled[where n = 52]) (simp_all add: round_half_even_def)

lemma dr_five_halves: "double_round (5 / 2) = 5 / 2"
  by (subst double_round_scaled[where n = 51]) (simp_all add: round_half_even_def)

lemma dr_absorb_n: "double_round (1152921504606846975 / 1152921504606846976) = 1"
  using dr_absorb by simp

lemma dr_absorb2_n: "double_round (1729382256910270463 / 1152921504606846976) = 3 / 2"
  using dr_absorb2 by simp










lemma rhe_bounds: "of_int (round_half_even y) \<le> y + 1 / 2" "y - 1 / 2 \<le> of_int (round_half_even y)"
  by (auto simp: round_half_even_def Let_def) linarith+













section \<open>The beam fan\<close>












section \<open>Construction of the sensor\<close>

text \<open>
  C5, as stated, fails: the third test subtracts in doubles. With
  \<open>angle_min = 2 ^ -60\<close>, \<open>angle_max = 1\<close> and \<open>angle_increment = 1\<close> the increment is
  greater than \<open>angle_max - angle_min\<close>, but the double difference is 1 and the
  constructor accepts the configuration.
\<close>

theorem construction_counterexample:
  "\<not> isl (fst (from_config double_numerics
       \<lparr>cfg_angle_min = 1 / 2 ^ 60, cfg_angle_max = 1, cfg_angle_increment = 1,
        cfg_range_min = 0, cfg_range_max = 10, cfg_frame_id = ''laser''\<rparr>))
   \<and> (1 :: real) > 1 - 1 / 2 ^ 60"
  by (simp add: from_config_def post_init_def double_numerics_def arange_double_def
        Let_def dr_absorb_n dr_half dr_three_halves dr_absorb2_n)

text \<open>
  C5, amended: construction raises exactly when \<open>angle_min > angle_max\<close>, or
  \<open>angle_increment \<le> 0\<close>, or \<open>angle_increment\<close> is greater than the double difference
  \<open>angle_max - angle_min\<close>, or \<open>np.arange\<close> itself raises; in the first three cases
  it raises \<open>ValueError\<close> before any warning; in particular it raises when
  \<open>angle_increment = 0\<close>, and when \<open>angle_min\<close> is 10 degrees and \<open>angle_max\<close> is
  minus 10 degrees (\<open>math.radians(10) = 10 * pi / 180\<close>).
\<close>

theorem construction_fails_iff:
  "(isl (fst (from_config nm c)) \<longleftrightarrow>
      cfg_angle_min c > cfg_angle_max c \<or> cfg_angle_increment c \<le> 0 \<or>
      cfg_angle_increment c > rnd nm (cfg_angle_max c - cfg_angle_min c) \<or>
      isl (np_arange nm (cfg_angle_min c)
             (rnd nm (cfg_angle_max c + rnd nm (cfg_angle_increment c / 2)))
             (cfg_angle_increment c)))
   \<and> (cfg_angle_min c > cfg_angle_max c \<or> cfg_angle_increment c \<le> 0 \<or>
       cfg_angle_increment c > rnd nm (cfg_angle_max c - cfg_angle_min c)
        \<longrightarrow> from_config nm c = (Inl ValueError, []))
   \<and> (cfg_angle_increment c = 0 \<longrightarrow> from_config nm c = (Inl ValueError, []))
   \<and> (cfg_angle_min c = 10 * pi / 180 \<and> cfg_angle_max c = - 10 * pi / 180
        \<longrightarrow> from_config nm c = (Inl ValueError, []))"
proof -
  have iff: "isl (fst (from_config nm c)) \<longleftrightarrow>
      cfg_angle_min c > cfg_angle_max c \<or> cfg_angle_increment c \<le> 0 \<or>
      cfg_angle_increment c > rnd nm (cfg_angle_max c - cfg_angle_min c) \<or>
      isl (np_arange nm (cfg_angle_min c)
             (rnd nm (cfg_angle_max c + rnd nm (cfg_angle_increment c / 2)))
             (cfg_angle_increment c))"
    by (auto simp: from_config_def post_init_def Let_def split: sum.splits)
  have err: "cfg_angle_min c > cfg_angle_max c \<or> cfg_angle_increment c \<le> 0 \<or>
       cfg_angle_increment c > rnd nm (cfg_angle_max c - cfg_angle_min c)
        \<longrightarrow> from_config nm c = (Inl ValueError, [])"
    by (auto simp: from_config_def post_init_def)
  have zero: "cfg_angle_increment c = 0 \<longrightarrow> from_config nm c = (Inl ValueError, [])"
    by (simp add: from_config_def post_init_def)
  have deg: "cfg_angle_min c = 10 * pi / 180 \<and> cfg_angle_max c = - 10 * pi / 180
        \<longrightarrow> from_config nm c = (Inl ValueError, [])"
  proof
    assume h: "cfg_angle_min c = 10 * pi / 180 \<and> cfg_angle_max c = - 10 * pi / 180"
    have "cfg_angle_max c < cfg_angle_min c" using h pi_gt_zero by linarith
    then show "from_config nm c = (Inl ValueError, [])"
      by (simp add: from_config_def post_init_def)
  qed
  show ?thesis using iff err zero deg by blast
qed

theorem construction_fails_iff_witness:
  "from_config double_numerics \<lparr>cfg_angle_min = - 1, cfg_angle_max = 1, cfg_angle_increment = 0,
       cfg_range_min = 0, cfg_range_max = 10, cfg_frame_id = ''laser''\<rparr> = (Inl ValueError, [])
   \<and> from_config double_numerics \<lparr>cfg_angle_min = 10 * pi / 180, cfg_angle_max = - 10 * pi / 180,
       cfg_angle_increment = pi / 180,
       cfg_range_min = 0, cfg_range_max = 10, cfg_frame_id = ''laser''\<rparr> = (Inl ValueError, [])
   \<and> from_config double_numerics \<lparr>cfg_angle_min = 0, cfg_angle_max = 1, cfg_angle_increment = 2,
       cfg_range_min = 0, cfg_range_max = 10, cfg_frame_id = ''laser''\<rparr> = (Inl ValueError, [])
   \<and> \<not> isl (fst (from_config double_numerics \<lparr>cfg_angle_min = - 1, cfg_angle_max = 1,
       cfg_angle_increment = 1, cfg_range_min = 0, cfg_range_max = 10,
       cfg_frame_id = ''laser''\<rparr>))"
proof -
  have a: "from_config double_numerics \<lparr>cfg_angle_min = - 1, cfg_angle_max = 1,
       cfg_angle_increment = 0,
       cfg_range_min = 0, cfg_range_max = 10, cfg_frame_id = ''laser''\<rparr> = (Inl ValueError, [])"
    by (rule construction_fails_iff [THEN conjunct2, THEN conjunct2, THEN conjunct1, THEN mp])
       simp
  have b: "from_config double_numerics \<lparr>cfg_angle_min = 10 * pi / 180,
       cfg_angle_max = - 10 * pi / 180, cfg_angle_increment = pi / 180,
       cfg_range_min = 0, cfg_range_max = 10, cfg_frame_id = ''laser''\<rparr> = (Inl ValueError, [])"
    by (rule construction_fails_iff [THEN conjunct2, THEN conjunct2, THEN conjunct2, THEN mp])
       simp
  have c: "from_config double_numerics \<lparr>cfg_angle_min = 0, cfg_angle_max = 1,
       cfg_angle_increment = 2,
       cfg_range_min = 0, cfg_range_max = 10, cfg_frame_id = ''laser''\<rparr> = (Inl ValueError, [])"
    by (rule construction_fails_iff [THEN conjunct2, THEN conjunct1, THEN mp])
       (simp add: double_numerics_def dr_one)
  have d: "\<not> isl (fst (from_config double_numerics \<lparr>cfg_angle_min = - 1, cfg_angle_max = 1,
       cfg_angle_increment = 1, cfg_range_min = 0, cfg_range_max = 10,
       cfg_frame_id = ''laser''\<rparr>))"
    by (subst construction_fails_iff [THEN conjunct1])
       (simp add: double_numerics_def arange_double_def Let_def dr_two dr_half dr_three_halves
          dr_five_halves)
  show ?thesis using a b c d by blast
qed

section \<open>The measurement buffer\<close>

text \<open>
  C8: \<open>update_ranges_and_beams\<close> raises \<open>ValueError\<close> when \<open>new_ranges\<close> or
  \<open>new_beam_end_points\<close> differs in length from the current buffer, and then the
  object is exactly as before (time stamp, ranges and end points included); otherwise it
  returns and time stamp, ranges and end points are the new ones, all other fields as
  before.
\<close>

theorem update_all_or_nothing:
  "(length new_ranges \<noteq> length (ranges ls) \<or>
    length new_beam_end_points \<noteq> length (beam_end_points ls)
      \<longrightarrow> update_ranges_and_beams t new_ranges new_beam_end_points ls = (Inl ValueError, ls))
   \<and> (length new_ranges = length (ranges ls) \<and>
      length new_beam_end_points = length (beam_end_points ls)
      \<longrightarrow> update_ranges_and_beams t new_ranges new_beam_end_points ls =
            (Inr (), ls\<lparr>timestamp := t, ranges := new_ranges,
                          beam_end_points := new_beam_end_points\<rparr>))"
  by (simp add: update_ranges_and_beams_def)

theorem update_all_or_nothing_witness:
  "update_ranges_and_beams 7 [1] [(0, 0), (1, 1)]
     \<lparr>timestamp = 0, frame_id = ''laser'', state = [], angle_min = - 1, angle_max = 1,
      angle_increment = 2, angles = [- 1, 1], range_min = 0, range_max = 10,
      ranges = [10, 10], beam_end_points = [(3, 4), (5, 6)]\<rparr>
   = (Inl ValueError,
     \<lparr>timestamp = 0, frame_id = ''laser'', state = [], angle_min = - 1, angle_max = 1,
      angle_increment = 2, angles = [- 1, 1], range_min = 0, range_max = 10,
      ranges = [10, 10], beam_end_points = [(3, 4), (5, 6)]\<rparr>)
   \<and> update_ranges_and_beams 7 [1, 2] [(0, 0), (1, 1)]
     \<lparr>timestamp = 0, frame_id = ''laser'', state = [], angle_min = - 1, angle_max = 1,
      angle_increment = 2, angles = [- 1, 1], range_min = 0, range_max = 10,
      ranges = [10, 10], beam_end_points = [(3, 4), (5, 6)]\<rparr>
   = (Inr (),
     \<lparr>timestamp = 7, frame_id = ''laser'', state = [], angle_min = - 1, angle_max = 1,
      angle_increment = 2, angles = [- 1, 1], range_min = 0, range_max = 10,
      ranges = [1, 2], beam_end_points = [(0, 0), (1, 1)]\<rparr>)"
  using update_all_or_nothing [of "[1]" "\<lparr>timestamp = 0, frame_id = ''laser'', state = [],
      angle_min = - 1, angle_max = 1,
      angle_increment = 2, angles = [- 1, 1], range_min = 0, range_max = 10,
      ranges = [10, 10], beam_end_points = [(3, 4), (5, 6)]\<rparr>" "[(0, 0), (1, 1)]" 7]
    update_all_or_nothing [of "[1, 2]" "\<lparr>timestamp = 0, frame_id = ''laser'', state = [],
      angle_min = - 1, angle_max = 1,
      angle_increment = 2, angles = [- 1, 1], range_min = 0, range_max = 10,
      ranges = [10, 10], beam_end_points = [(3, 4), (5, 6)]\<rparr>" "[(0, 0), (1, 1)]" 7]
  by simp

section \<open>init\_beams\<close>

lemma init_beams_loop_num:
  "init_beams_loop [PNum x, PNum y] (PNum h) as ls =
     (Inr (), ls\<lparr>beam_end_points := beam_end_points ls @
                 map (\<lambda>a. (x + range_max ls * cos (h + a), y + range_max ls * sin (h + a))) as\<rparr>)"
  by (induction as arbitrary: ls) simp_all

lemma init_beams_num:
  "init_beams [PNum x, PNum y] (PNum h) ls =
     (Inr (), ls\<lparr>state := [PNum x, PNum y, PNum h],
                 beam_end_points :=
                   map (\<lambda>a. (x + range_max ls * cos (h + a), y + range_max ls * sin (h + a)))
                     (angles ls),
                 ranges := replicate (length (angles ls)) (range_max ls)\<rparr>)"
  by (simp add: init_beams_def init_beams_loop_num)

lemma init_beams_loop_frame:
  "init_beams_loop pos h as ls = (r, ls') \<Longrightarrow>
     ls' = ls\<lparr>beam_end_points := beam_end_points ls'\<rparr> \<and>
     length (beam_end_points ls') \<le> length (beam_end_points ls) + length as \<and>
     (r = Inr () \<longrightarrow> length (beam_end_points ls') = length (beam_end_points ls) + length as)"
proof (induction as arbitrary: ls)
  case Nil
  then show ?case by auto
next
  case (Cons a as)
  show ?case
  proof (cases "py_float h")
    case (Inl e) with Cons.prems show ?thesis by auto
  next
    case h: (Inr hv)
    show ?thesis
    proof (cases "py_float (pos ! 0)")
      case (Inl e) with Cons.prems h show ?thesis by auto
    next
      case x: (Inr xv)
      show ?thesis
      proof (cases "py_float (pos ! 1)")
        case (Inl e) with Cons.prems h x show ?thesis by auto
      next
        case y: (Inr yv)
        let ?ls1 = "ls\<lparr>beam_end_points := beam_end_points ls @
                   [(xv + range_max ls * cos (hv + a), yv + range_max ls * sin (hv + a))]\<rparr>"
        from Cons.prems h x y have "init_beams_loop pos h as ?ls1 = (r, ls')" by simp
        from Cons.IH[OF this] show ?thesis by auto
      qed
    qed
  qed
qed

section \<open>The inner loop computes the specified range\<close>

lemma closest_loop_fold:
  assumes "\<forall>b g. \<not> is_empty ops (intersection ops b g) \<longrightarrow> intersects ops b g"
  shows "closest_loop ops beam p geos c =
           fold min (List.map_filter (spec_hit_distance ops beam p) geos) c"
  using assms
proof (induction geos arbitrary: c)
  case Nil
  then show ?case by (simp add: List.map_filter_simps)
next
  case (Cons g gs)
  then show ?case
    by (auto simp: List.map_filter_simps spec_hit_distance_def Let_def min_def)
qed

lemma fold_min_Min:
  fixes c :: real
  shows "fold min ds c = (if ds = [] then c else min c (Min (set ds)))"
proof (induction ds arbitrary: c)
  case Nil
  then show ?case by simp
next
  case (Cons d ds)
  show ?case
  proof (cases "ds = []")
    case True
    then show ?thesis by (simp add: min.commute)
  next
    case False
    then show ?thesis by (simp add: Cons.IH min.assoc min.commute)
  qed
qed

lemma map_filter_nonneg:
  assumes "\<forall>g q. 0 \<le> distance ops g q"
  shows "\<forall>d \<in> set (List.map_filter (spec_hit_distance ops beam p) geos). 0 \<le> d"
  using assms
  by (cases p) (auto simp: List.map_filter_def spec_hit_distance_def Let_def split: if_splits)

lemma closest_loop_spec:
  assumes lib1: "\<forall>g q. 0 \<le> distance ops g q"
    and lib2: "\<forall>b g. \<not> is_empty ops (intersection ops b g) \<longrightarrow> intersects ops b g"
  shows "closest_loop ops beam p geos rmax = spec_beam_range ops rmax beam p geos"
proof -
  let ?ds = "List.map_filter (spec_hit_distance ops beam p) geos"
  have c: "closest_loop ops beam p geos rmax = (if ?ds = [] then rmax else min rmax (Min (set ?ds)))"
    by (simp only: closest_loop_fold[OF lib2] fold_min_Min)
  show ?thesis
  proof (cases "?ds = []")
    case True
    then show ?thesis using c by (simp add: spec_beam_range_def)
  next
    case False
    then have "Min (set ?ds) \<in> set ?ds" by (intro Min_in) auto
    then have "0 \<le> Min (set ?ds)" using map_filter_nonneg[OF lib1] by blast
    then show ?thesis using c False by (simp add: spec_beam_range_def Let_def max_def)
  qed
qed

section \<open>The outer loop and the whole scan on a numeric pose\<close>

lemma beam_loop_enumerate:
  assumes "\<forall>a\<in>set as. LineString ops [(x, y), (x + rmax * cos (h + a), y + rmax * sin (h + a))]
              = Inr (beam a)"
    and "k + length as \<le> length nr" and "length nb = length nr"
  shows "\<exists>nr' nb'.
     beam_loop ops (x, y) (PNum h) rmax geos (List.enumerate k as) (nr, nb) = Inr (nr', nb') \<and>
     length nr' = length nr \<and> length nb' = length nr \<and>
     (\<forall>i<length nr. nr' ! i =
        (if k \<le> i \<and> i < k + length as
         then closest_loop ops (beam (as ! (i - k))) (x, y) geos rmax else nr ! i)) \<and>
     (\<forall>i<length nr. nb' ! i =
        (if k \<le> i \<and> i < k + length as
         then (x + closest_loop ops (beam (as ! (i - k))) (x, y) geos rmax * cos (h + as ! (i - k)),
               y + closest_loop ops (beam (as ! (i - k))) (x, y) geos rmax * sin (h + as ! (i - k)))
         else nb ! i))"
  using assms
proof (induction as arbitrary: k nr nb)
  case Nil
  then show ?case by auto
next
  case (Cons a as)
  let ?c = "closest_loop ops (beam a) (x, y) geos rmax"
  let ?nr = "nr[k := ?c]"
  let ?nb = "nb[k := (x + ?c * cos (h + a), y + ?c * sin (h + a))]"
  have b: "LineString ops [(x, y), (x + rmax * cos (h + a), y + rmax * sin (h + a))] = Inr (beam a)"
    using Cons.prems(1) by simp
  have k: "k < length nr" "k < length nb" using Cons.prems(2,3) by simp_all
  have step: "beam_loop ops (x, y) (PNum h) rmax geos (List.enumerate k (a # as)) (nr, nb)
      = beam_loop ops (x, y) (PNum h) rmax geos (List.enumerate (Suc k) as) (?nr, ?nb)"
    using b k by (simp add: Let_def)
  have p1: "\<forall>a\<in>set as. LineString ops [(x, y), (x + rmax * cos (h + a), y + rmax * sin (h + a))]
              = Inr (beam a)" using Cons.prems(1) by simp
  have p2: "Suc k + length as \<le> length ?nr" using Cons.prems(2) by simp
  have p3: "length ?nb = length ?nr" using Cons.prems(3) by simp
  from Cons.IH[OF p1 p2 p3] obtain nr' nb' where
    r: "beam_loop ops (x, y) (PNum h) rmax geos (List.enumerate (Suc k) as) (?nr, ?nb) = Inr (nr', nb')"
    and l: "length nr' = length ?nr" "length nb' = length ?nr"
    and n1: "\<forall>i<length ?nr. nr' ! i =
        (if Suc k \<le> i \<and> i < Suc k + length as
         then closest_loop ops (beam (as ! (i - Suc k))) (x, y) geos rmax else ?nr ! i)"
    and n2: "\<forall>i<length ?nr. nb' ! i =
        (if Suc k \<le> i \<and> i < Suc k + length as
         then (x + closest_loop ops (beam (as ! (i - Suc k))) (x, y) geos rmax * cos (h + as ! (i - Suc k)),
               y + closest_loop ops (beam (as ! (i - Suc k))) (x, y) geos rmax * sin (h + as ! (i - Suc k)))
         else ?nb ! i)"
    by blast
  have q1: "\<forall>i<length nr. nr' ! i =
        (if k \<le> i \<and> i < k + length (a # as)
         then closest_loop ops (beam ((a # as) ! (i - k))) (x, y) geos rmax else nr ! i)"
  proof (intro allI impI)
    fix i assume i: "i < length nr"
    show "nr' ! i = (if k \<le> i \<and> i < k + length (a # as)
         then closest_loop ops (beam ((a # as) ! (i - k))) (x, y) geos rmax else nr ! i)"
    proof (cases "i = k")
      case True
      then show ?thesis using n1 i k by simp
    next
      case False
      then show ?thesis using n1 i k by (auto simp: nth_Cons' Suc_diff_Suc)
    qed
  qed
  have q2: "\<forall>i<length nr. nb' ! i =
        (if k \<le> i \<and> i < k + length (a # as)
         then (x + closest_loop ops (beam ((a # as) ! (i - k))) (x, y) geos rmax * cos (h + (a # as) ! (i - k)),
               y + closest_loop ops (beam ((a # as) ! (i - k))) (x, y) geos rmax * sin (h + (a # as) ! (i - k)))
         else nb ! i)"
  proof (intro allI impI)
    fix i assume i: "i < length nr"
    show "nb' ! i = (if k \<le> i \<and> i < k + length (a # as)
         then (x + closest_loop ops (beam ((a # as) ! (i - k))) (x, y) geos rmax * cos (h + (a # as) ! (i - k)),
               y + closest_loop ops (beam ((a # as) ! (i - k))) (x, y) geos rmax * sin (h + (a # as) ! (i - k)))
         else nb ! i)"
    proof (cases "i = k")
      case True
      then show ?thesis using n2 i k by simp
    next
      case False
      then show ?thesis using n2 i k by (auto simp: nth_Cons' Suc_diff_Suc)
    qed
  qed
  show ?case using step r l q1 q2 by simp
qed


lemma beam_loop_all:
  assumes "\<forall>a\<in>set as. LineString ops [(x, y), (x + rmax * cos (h + a), y + rmax * sin (h + a))]
              = Inr (beam a)"
    and "length nr = length as" and "length nb = length as"
  shows "beam_loop ops (x, y) (PNum h) rmax geos (List.enumerate 0 as) (nr, nb) =
     Inr (map (\<lambda>a. closest_loop ops (beam a) (x, y) geos rmax) as,
          map (\<lambda>a. (x + closest_loop ops (beam a) (x, y) geos rmax * cos (h + a),
                     y + closest_loop ops (beam a) (x, y) geos rmax * sin (h + a))) as)"
proof -
  have le: "0 + length as \<le> length nr" and eq: "length nb = length nr"
    using assms(2,3) by simp_all
  from beam_loop_enumerate[OF assms(1) le eq, of geos] obtain nr' nb' where
    r: "beam_loop ops (x, y) (PNum h) rmax geos (List.enumerate 0 as) (nr, nb) = Inr (nr', nb')"
    and l: "length nr' = length nr" "length nb' = length nr"
    and n1: "\<forall>i<length nr. nr' ! i =
        (if 0 \<le> i \<and> i < 0 + length as
         then closest_loop ops (beam (as ! (i - 0))) (x, y) geos rmax else nr ! i)"
    and n2: "\<forall>i<length nr. nb' ! i =
        (if 0 \<le> i \<and> i < 0 + length as
         then (x + closest_loop ops (beam (as ! (i - 0))) (x, y) geos rmax * cos (h + as ! (i - 0)),
               y + closest_loop ops (beam (as ! (i - 0))) (x, y) geos rmax * sin (h + as ! (i - 0)))
         else nb ! i)"
    by blast
  have e1: "nr' = map (\<lambda>a. closest_loop ops (beam a) (x, y) geos rmax) as"
    using l n1 assms(2) by (intro nth_equalityI) simp_all
  have e2: "nb' = map (\<lambda>a. (x + closest_loop ops (beam a) (x, y) geos rmax * cos (h + a),
                     y + closest_loop ops (beam a) (x, y) geos rmax * sin (h + a))) as"
    using l n2 assms(2) by (intro nth_equalityI) simp_all
  show ?thesis using r e1 e2 by simp
qed

lemma scan_num_unfold:
  assumes "map_prepared s" "scanner_prepared s" "laser_scan s = Some ls"
  shows "scan ops t (PList [PNum x, PNum y, PNum h]) s =
     scan_cast ops t [PNum x, PNum y, PNum h]
       (ls\<lparr>timestamp := t, state := [PNum x, PNum y, PNum h],
           beam_end_points :=
             map (\<lambda>a. (x + range_max ls * cos (h + a), y + range_max ls * sin (h + a))) (angles ls),
           ranges := replicate (length (angles ls)) (range_max ls)\<rparr>)
       (s\<lparr>scanner_state := Some (PList [PNum x, PNum y, PNum h]),
          laser_scan := Some (ls\<lparr>timestamp := t, state := [PNum x, PNum y, PNum h],
           beam_end_points :=
             map (\<lambda>a. (x + range_max ls * cos (h + a), y + range_max ls * sin (h + a))) (angles ls),
           ranges := replicate (length (angles ls)) (range_max ls)\<rparr>)\<rparr>)"
  using assms by (simp add: scan_def init_beams_num)

lemma scan_outside:
  assumes "map_prepared s" "scanner_prepared s" "scanner_map s = Some m" "laser_scan s = Some ls"
    and "Polygon ops (boundary_coords m) = Inr poly" "\<not> contains ops poly (x, y)"
  shows "scan ops t (PList [PNum x, PNum y, PNum h]) s =
     (Inr (ls\<lparr>timestamp := t, state := [PNum x, PNum y, PNum h],
           beam_end_points :=
             map (\<lambda>a. (x + range_max ls * cos (h + a), y + range_max ls * sin (h + a))) (angles ls),
           ranges := replicate (length (angles ls)) (range_max ls)\<rparr>),
      s\<lparr>scanner_state := Some (PList [PNum x, PNum y, PNum h]),
        laser_scan := Some (ls\<lparr>timestamp := t, state := [PNum x, PNum y, PNum h],
           beam_end_points :=
             map (\<lambda>a. (x + range_max ls * cos (h + a), y + range_max ls * sin (h + a))) (angles ls),
           ranges := replicate (length (angles ls)) (range_max ls)\<rparr>),
        warnings := warnings s @ [outside_warning]\<rparr>)"
  using assms by (simp add: scan_num_unfold scan_cast_def)

lemma scan_inside:
  assumes "map_prepared s" "scanner_prepared s" "scanner_map s = Some m" "laser_scan s = Some ls"
    and "Polygon ops (boundary_coords m) = Inr poly" "contains ops poly (x, y)"
    and "build_polygons ops (obstacle_list m) = Inr polys"
    and "boundary_line ops (boundary_coords m) = Inr line"
    and "\<forall>a\<in>set (angles ls).
           LineString ops [(x, y), (x + range_max ls * cos (h + a), y + range_max ls * sin (h + a))]
             = Inr (beam a)"
  shows "scan ops t (PList [PNum x, PNum y, PNum h]) s =
     (Inr (ls\<lparr>timestamp := t, state := [PNum x, PNum y, PNum h],
           beam_end_points :=
             map (\<lambda>a. (x + closest_loop ops (beam a) (x, y) (polys @ [line]) (range_max ls) * cos (h + a),
                        y + closest_loop ops (beam a) (x, y) (polys @ [line]) (range_max ls) * sin (h + a)))
               (angles ls),
           ranges := map (\<lambda>a. closest_loop ops (beam a) (x, y) (polys @ [line]) (range_max ls))
                       (angles ls)\<rparr>),
      s\<lparr>scanner_state := Some (PList [PNum x, PNum y, PNum h]),
        laser_scan := Some (ls\<lparr>timestamp := t, state := [PNum x, PNum y, PNum h],
           beam_end_points :=
             map (\<lambda>a. (x + closest_loop ops (beam a) (x, y) (polys @ [line]) (range_max ls) * cos (h + a),
                        y + closest_loop ops (beam a) (x, y) (polys @ [line]) (range_max ls) * sin (h + a)))
               (angles ls),
           ranges := map (\<lambda>a. closest_loop ops (beam a) (x, y) (polys @ [line]) (range_max ls))
                       (angles ls)\<rparr>)\<rparr>)"
proof -
  have bl: "beam_loop ops (x, y) (PNum h) (range_max ls) (polys @ [line])
      (List.enumerate 0 (angles ls))
      (replicate (length (angles ls)) (range_max ls),
       map (\<lambda>a. (x + range_max ls * cos (h + a), y + range_max ls * sin (h + a))) (angles ls))
    = Inr (map (\<lambda>a. closest_loop ops (beam a) (x, y) (polys @ [line]) (range_max ls)) (angles ls),
          map (\<lambda>a. (x + closest_loop ops (beam a) (x, y) (polys @ [line]) (range_max ls) * cos (h + a),
                     y + closest_loop ops (beam a) (x, y) (polys @ [line]) (range_max ls) * sin (h + a)))
            (angles ls))"
    by (rule beam_loop_all[OF assms(9)]) simp_all
  show ?thesis
    using assms(1-8) bl
    by (simp add: scan_num_unfold scan_cast_def update_ranges_and_beams_def)
qed

section \<open>The scenario, evaluated\<close>

lemma three_beams_output: "from_config exact_numerics three_beams = (Inr three_beam_output, [])"
proof -
  have p: "0 < pi" by (rule pi_gt_zero)
  have q: "(pi / 2 + pi / 2 / 2 - - (pi / 2)) / (pi / 2) = 5 / 2" using p by (simp add: field_simps)
  have n: "nat \<lceil>5 / 2 :: real\<rceil> = 3" by simp
  have len: "nat \<lceil>(pi / 2 + pi / 2 / 2 - - (pi / 2)) / (pi / 2)\<rceil> = 3" by (simp only: q n)
  have u: "[0..<3] = [0, 1, 2]" by (simp add: upt_conv_Cons)
  have a: "exact_arange (- (pi / 2)) (pi / 2 + pi / 2 / 2) (pi / 2) = [- (pi / 2), 0, pi / 2]"
    by (simp only: exact_arange_def len u) simp
  have c: "\<not> pi \<le> 0" using p by linarith
  show ?thesis using a c
    by (simp add: from_config_def post_init_def exact_numerics_def three_beams_def
          three_beam_output_def)
qed

lemma ready_scanner_eq:
  "ready_scanner = \<lparr>cfg = three_beams, map_prepared = True, scanner_prepared = True,
      scanner_map = Some \<lparr>boundary_coords = room, obstacle_list = [block]\<rparr>,
      scanner_state = Some (PList [PNum 5, PNum 1, PNum 0]),
      laser_scan = Some three_beam_output, warnings = []\<rparr>"
  by (simp add: ready_scanner_def load_scanner_def load_map_def LaserScanner_init_def three_beams_output)

lemma box_distance_nonneg: "0 \<le> box_distance g q"
proof -
  have f: "\<And>(xs :: real list) c. 0 \<le> c \<Longrightarrow> \<forall>v\<in>set xs. 0 \<le> v \<Longrightarrow> 0 \<le> fold min xs c"
  proof -
    fix xs :: "real list" and c
    show "0 \<le> c \<Longrightarrow> \<forall>v\<in>set xs. 0 \<le> v \<Longrightarrow> 0 \<le> fold min xs c"
      by (induction xs arbitrary: c) simp_all
  qed
  show ?thesis
  proof (cases "coords g")
    case Nil
    then show ?thesis by (simp add: box_distance_def)
  next
    case (Cons c cs)
    then show ?thesis by (simp add: box_distance_def lo_def f)
  qed
qed


lemmas box_eval = box_shapely_def box_intersection_def box_distance_def box_contains_def
  lo_def hi_def room_def block_def on_outline_def Let_def

section \<open>Scanning from inside the boundary\<close>

lemma build_polygons_map:
  "build_polygons ops obstacles = Inr polys \<longleftrightarrow> map (Polygon ops) obstacles = map Inr polys"
proof (induction obstacles arbitrary: polys)
  case Nil
  then show ?case by auto
next
  case (Cons obstacle rest)
  show ?case
  proof (cases "Polygon ops obstacle")
    case (Inl e)
    then show ?thesis by (cases polys) auto
  next
    case (Inr g)
    show ?thesis
    proof (cases "build_polygons ops rest")
      case (Inl e)
      have "map (Polygon ops) rest \<noteq> map Inr gs" for gs
        using Cons.IH[of gs] Inl by simp
      then show ?thesis using Inr Inl by (cases polys) auto
    next
      case r: (Inr gs)
      then have "map (Polygon ops) rest = map Inr gs" using Cons.IH[of gs] by simp
      then show ?thesis using Inr r by (cases polys) (auto simp: inj_Inr [THEN inj_map_eq_map])
    qed
  qed
qed

lemma boundary_line_closed:
  "boundary \<noteq> [] \<Longrightarrow> boundary_line ops boundary = LineString ops (boundary @ [hd boundary])"
  by (cases boundary) (simp_all add: boundary_line_def)

text \<open>
  C1: let the map and the scanner be loaded, the pose be the list \<open>[x, y, h]\<close> of
  numbers, and \<open>(x, y)\<close> lie strictly inside the polygon of the boundary. Let \<open>polys\<close> be
  the obstacles, each as the filled polygon \<open>Polygon(obstacle)\<close> of its vertex list, and
  \<open>line\<close> the boundary as the closed polyline \<open>LineString\<close> through its vertices and
  back to the first; let shapely build every beam segment, report distances that are not
  negative, and report \<open>intersects\<close> wherever the intersection is not empty. Then \<open>scan\<close>
  returns, the object it returns is the committed one, the range of every beam angle is
  the specified one over these geometries (the least distance from the sensor to a beam
  intersection, floored at 0 and capped at \<open>range_max\<close>, and \<open>range_max\<close> when nothing is
  met), and the end point of every beam is
  \<open>(x + range * cos (h + angle), y + range * sin (h + angle))\<close>.
\<close>

theorem scan_ranges_are_nearest_hits:
  assumes "map_prepared s" "scanner_prepared s" "scanner_map s = Some m" "laser_scan s = Some ls"
    and "Polygon ops (boundary_coords m) = Inr poly" "contains ops poly (x, y)"
    and obstacles: "map (Polygon ops) (obstacle_list m) = map Inr polys"
    and nonempty: "boundary_coords m \<noteq> []"
    and closed: "LineString ops (boundary_coords m @ [hd (boundary_coords m)]) = Inr line"
    and "\<forall>a\<in>set (angles ls).
           LineString ops [(x, y), (x + range_max ls * cos (h + a), y + range_max ls * sin (h + a))]
             = Inr (beam a)"
    and lib1: "\<forall>g q. 0 \<le> distance ops g q"
    and lib2: "\<forall>b g. \<not> is_empty ops (intersection ops b g) \<longrightarrow> intersects ops b g"
  shows "\<exists>out s'. scan ops t (PList [PNum x, PNum y, PNum h]) s = (Inr out, s')
       \<and> laser_scan s' = Some out
       \<and> angles out = angles ls
       \<and> ranges out =
           map (\<lambda>a. spec_beam_range ops (range_max ls) (beam a) (x, y) (polys @ [line])) (angles ls)
       \<and> beam_end_points out =
           map2 (\<lambda>r a. (x + r * cos (h + a), y + r * sin (h + a))) (ranges out) (angles ls)"
proof -
  have z: "\<And>f g (as :: real list). map2 f (map g as) as = map (\<lambda>a. f (g a) a) as"
    by (simp add: zip_map1 zip_same_conv_map)
  have bp: "build_polygons ops (obstacle_list m) = Inr polys"
    using obstacles by (simp only: build_polygons_map)
  have bl: "boundary_line ops (boundary_coords m) = Inr line"
    using closed by (simp only: boundary_line_closed[OF nonempty])
  show ?thesis
    by (simp add: scan_inside[OF assms(1-6) bp bl assms(10)] closest_loop_spec[OF lib1 lib2] z)
qed

theorem scan_ranges_are_nearest_hits_witness:
  "\<exists>out s'. scan box_shapely 0 (PList [PNum 5, PNum 1, PNum 0]) ready_scanner = (Inr out, s')
     \<and> laser_scan s' = Some out
     \<and> ranges out = [1, 4, 3]
     \<and> beam_end_points out = [(5, 0), (9, 1), (5, 4)]"
proof -
  let ?m = "\<lparr>boundary_coords = room, obstacle_list = [block]\<rparr>"
  let ?beam = "\<lambda>a. Curve [(5, 1), (5 + 4 * cos (0 + a), 1 + 4 * sin (0 + a))]"
  have h1: "map_prepared ready_scanner" and h2: "scanner_prepared ready_scanner"
    and h3: "scanner_map ready_scanner = Some ?m"
    and h4: "laser_scan ready_scanner = Some three_beam_output"
    by (simp_all add: ready_scanner_eq)
  have h5: "Polygon box_shapely (boundary_coords ?m) = Inr (Filled room)"
    by (simp add: box_shapely_def room_def)
  have h6: "contains box_shapely (Filled room) (5, 1)"
    by (simp add: box_eval)
  have h7: "map (Polygon box_shapely) (obstacle_list ?m) = map Inr [Filled block]"
    by (simp add: box_shapely_def block_def)
  have h8a: "boundary_coords ?m \<noteq> []"
    by (simp add: room_def)
  have h8: "LineString box_shapely (boundary_coords ?m @ [hd (boundary_coords ?m)])
              = Inr (Curve (room @ [(0, 0)]))"
    by (simp add: box_shapely_def room_def)
  have h9: "\<forall>a\<in>set (angles three_beam_output).
      LineString box_shapely [(5, 1), (5 + range_max three_beam_output * cos (0 + a),
                                       1 + range_max three_beam_output * sin (0 + a))]
        = Inr (?beam a)"
    by (simp add: box_shapely_def three_beam_output_def)
  have h10: "\<forall>g q. 0 \<le> distance box_shapely g q"
    by (simp add: box_shapely_def box_distance_nonneg)
  have h11: "\<forall>b g. \<not> is_empty box_shapely (intersection box_shapely b g)
               \<longrightarrow> intersects box_shapely b g"
    by (simp add: box_shapely_def)
  from scan_ranges_are_nearest_hits [OF h1 h2 h3 h4 h5 h6 h7 h8a h8 h9 h10 h11, of 0]
  obtain out s' where
    r: "scan box_shapely 0 (PList [PNum 5, PNum 1, PNum 0]) ready_scanner = (Inr out, s')"
    and l: "laser_scan s' = Some out"
    and rg: "ranges out = map (\<lambda>a. spec_beam_range box_shapely (range_max three_beam_output)
                (?beam a) (5, 1) ([Filled block] @ [Curve (room @ [(0, 0)])]))
                (angles three_beam_output)"
    and ep: "beam_end_points out =
           map2 (\<lambda>r a. (5 + r * cos (0 + a), 1 + r * sin (0 + a))) (ranges out)
             (angles three_beam_output)"
    by blast
  have v1: "spec_beam_range box_shapely 4 (Curve [(5, 1), (5, - 3)]) (5, 1)
              [Filled block, Curve (room @ [(0, 0)])] = 1"
    by (simp add: spec_beam_range_def spec_hit_distance_def List.map_filter_simps box_eval)
  have v2: "spec_beam_range box_shapely 4 (Curve [(5, 1), (9, 1)]) (5, 1)
              [Filled block, Curve (room @ [(0, 0)])] = 4"
    by (simp add: spec_beam_range_def spec_hit_distance_def List.map_filter_simps box_eval)
  have v3: "spec_beam_range box_shapely 4 (Curve [(5, 1), (5, 5)]) (5, 1)
              [Filled block, Curve (room @ [(0, 0)])] = 3"
    by (simp add: spec_beam_range_def spec_hit_distance_def List.map_filter_simps box_eval)
  have rg': "ranges out = [1, 4, 3]"
    using rg by (simp add: three_beam_output_def v1 v2 v3)
  have ep': "beam_end_points out = [(5, 0), (9, 1), (5, 4)]"
    using ep by (simp add: rg' three_beam_output_def)
  show ?thesis using r l rg' ep' by blast
qed

section \<open>Scanning from outside the boundary\<close>

text \<open>
  C2: let the map and the scanner be loaded and the pose be the list \<open>[x, y, h]\<close> of
  numbers, and let \<open>(x, y)\<close> not lie strictly inside the boundary polygon (shapely's
  \<open>contains\<close> is false outside and on the boundary curve). Then \<open>scan\<close> does not raise:
  it emits the warning and returns an object in which every range is \<open>range_max\<close>. No
  intersection is computed and the obstacles play no part: with any other obstacle list
  and any other line constructor, validity test, repair, intersection test,
  intersection, emptiness test and distance the result is the same object.
\<close>

theorem scan_outside_baseline:
  assumes "map_prepared s" "scanner_prepared s" "scanner_map s = Some m" "laser_scan s = Some ls"
    and "Polygon ops (boundary_coords m) = Inr poly" "\<not> contains ops poly (x, y)"
  shows "\<exists>out s'. scan ops t (PList [PNum x, PNum y, PNum h]) s = (Inr out, s')
       \<and> warnings s' = warnings s @ [outside_warning]
       \<and> ranges out = replicate (length (angles out)) (range_max out)
       \<and> (\<forall>r\<in>set (ranges out). r = range_max out)
       \<and> (\<forall>obstacles line_string valid buffer meets meet empty dist.
             fst (scan (ops\<lparr>LineString := line_string, is_valid := valid, buffer0 := buffer,
                             intersects := meets, intersection := meet, is_empty := empty,
                             distance := dist\<rparr>)
                    t (PList [PNum x, PNum y, PNum h])
                    (s\<lparr>scanner_map := Some (m\<lparr>obstacle_list := obstacles\<rparr>)\<rparr>)) = Inr out)"
proof -
  let ?out = "ls\<lparr>timestamp := t, state := [PNum x, PNum y, PNum h],
           beam_end_points :=
             map (\<lambda>a. (x + range_max ls * cos (h + a), y + range_max ls * sin (h + a))) (angles ls),
           ranges := replicate (length (angles ls)) (range_max ls)\<rparr>"
  have a: "scan ops t (PList [PNum x, PNum y, PNum h]) s =
      (Inr ?out, s\<lparr>scanner_state := Some (PList [PNum x, PNum y, PNum h]),
                    laser_scan := Some ?out, warnings := warnings s @ [outside_warning]\<rparr>)"
    by (rule scan_outside[OF assms])
  have b: "fst (scan (ops\<lparr>LineString := line_string, is_valid := valid, buffer0 := buffer,
                             intersects := meets, intersection := meet, is_empty := empty,
                             distance := dist\<rparr>)
                    t (PList [PNum x, PNum y, PNum h])
                    (s\<lparr>scanner_map := Some (m\<lparr>obstacle_list := obstacles\<rparr>)\<rparr>)) = Inr ?out"
    for obstacles line_string valid buffer meets meet empty dist
  proof -
    let ?ops = "ops\<lparr>LineString := line_string, is_valid := valid, buffer0 := buffer,
                             intersects := meets, intersection := meet, is_empty := empty,
                             distance := dist\<rparr>"
    let ?s = "s\<lparr>scanner_map := Some (m\<lparr>obstacle_list := obstacles\<rparr>)\<rparr>"
    have 1: "map_prepared ?s" "scanner_prepared ?s"
      "scanner_map ?s = Some (m\<lparr>obstacle_list := obstacles\<rparr>)" "laser_scan ?s = Some ls"
      using assms(1,2,4) by simp_all
    have 2: "Polygon ?ops (boundary_coords (m\<lparr>obstacle_list := obstacles\<rparr>)) = Inr poly"
      using assms(5) by simp
    have 3: "\<not> contains ?ops poly (x, y)" using assms(6) by simp
    show ?thesis by (simp add: scan_outside[OF 1 2 3])
  qed
  show ?thesis using a b by simp
qed

theorem scan_outside_baseline_witness:
  "\<exists>out s'. scan box_shapely 7 (PList [PNum 12, PNum 5, PNum 0]) ready_scanner = (Inr out, s')
     \<and> warnings s' = [outside_warning]
     \<and> ranges out = [4, 4, 4]
     \<and> fst (scan (box_shapely\<lparr>LineString := (\<lambda>cs. Inl ValueError), is_valid := (\<lambda>g. False),
                      buffer0 := (\<lambda>g. Nothing), intersects := (\<lambda>b g. True),
                      intersection := (\<lambda>b g. g), is_empty := (\<lambda>g. False),
                      distance := (\<lambda>g p. 1)\<rparr>)
             7 (PList [PNum 12, PNum 5, PNum 0])
             (ready_scanner\<lparr>scanner_map :=
                Some (\<lparr>boundary_coords = room, obstacle_list = [block]\<rparr>
                      \<lparr>obstacle_list := [[(11, 4), (13, 4), (13, 6), (11, 6)]]\<rparr>)\<rparr>)) = Inr out"
proof -
  let ?m = "\<lparr>boundary_coords = room, obstacle_list = [block]\<rparr>"
  have h1: "map_prepared ready_scanner" and h2: "scanner_prepared ready_scanner"
    and h3: "scanner_map ready_scanner = Some ?m"
    and h4: "laser_scan ready_scanner = Some three_beam_output"
    and w: "warnings ready_scanner = []"
    by (simp_all add: ready_scanner_eq)
  have h5: "Polygon box_shapely (boundary_coords ?m) = Inr (Filled room)"
    by (simp add: box_shapely_def room_def)
  have h6: "\<not> contains box_shapely (Filled room) (12, 5)"
    by (simp add: box_eval)
  from scan_outside_baseline [OF h1 h2 h3 h4 h5 h6, of 7 0]
  obtain out s' where
    r: "scan box_shapely 7 (PList [PNum 12, PNum 5, PNum 0]) ready_scanner = (Inr out, s')"
    and ws: "warnings s' = warnings ready_scanner @ [outside_warning]"
    and rg: "ranges out = replicate (length (angles out)) (range_max out)"
    and ind: "\<forall>obstacles line_string valid buffer meets meet empty dist.
             fst (scan (box_shapely\<lparr>LineString := line_string, is_valid := valid,
                             buffer0 := buffer,
                             intersects := meets, intersection := meet, is_empty := empty,
                             distance := dist\<rparr>)
                    7 (PList [PNum 12, PNum 5, PNum 0])
                    (ready_scanner\<lparr>scanner_map := Some (?m\<lparr>obstacle_list := obstacles\<rparr>)\<rparr>))
               = Inr out"
    by blast
  have o: "out = three_beam_output\<lparr>timestamp := 7, state := [PNum 12, PNum 5, PNum 0],
           beam_end_points :=
             map (\<lambda>a. (12 + range_max three_beam_output * cos (0 + a),
                        5 + range_max three_beam_output * sin (0 + a)))
               (angles three_beam_output),
           ranges := replicate (length (angles three_beam_output)) (range_max three_beam_output)\<rparr>"
    using r scan_outside [OF h1 h2 h3 h4 h5 h6, of 7 0] by simp
  have rg': "ranges out = [4, 4, 4]"
    by (simp add: o three_beam_output_def numeral_3_eq_3)
  show ?thesis using r ws w rg' ind by auto
qed

text \<open>
  C10: under the same conditions the object returned early is refreshed, not the previous
  scan: the scanner's pose is the supplied pose, the object's time stamp is the supplied
  time stamp, its pose is the supplied pose, and every end point is recomputed at
  \<open>range_max\<close> from the new pose. It is exactly what the time stamp assignment and
  \<open>init_beams\<close> leave: only the commit by \<open>update_ranges_and_beams\<close> is skipped.
\<close>

theorem early_return_is_refreshed:
  assumes "map_prepared s" "scanner_prepared s" "scanner_map s = Some m" "laser_scan s = Some ls"
    and "Polygon ops (boundary_coords m) = Inr poly" "\<not> contains ops poly (x, y)"
  shows "\<exists>out s'. scan ops t (PList [PNum x, PNum y, PNum h]) s = (Inr out, s')
       \<and> laser_scan s' = Some out
       \<and> scanner_state s' = Some (PList [PNum x, PNum y, PNum h])
       \<and> timestamp out = t
       \<and> state out = [PNum x, PNum y, PNum h]
       \<and> beam_end_points out =
           map (\<lambda>a. (x + range_max ls * cos (h + a), y + range_max ls * sin (h + a))) (angles ls)
       \<and> init_beams [PNum x, PNum y] (PNum h) (ls\<lparr>timestamp := t\<rparr>) = (Inr (), out)"
  by (simp add: scan_outside[OF assms] init_beams_num)

theorem early_return_is_refreshed_witness:
  "\<exists>out s'. scan box_shapely 7 (PList [PNum 0, PNum 5, PNum 0]) ready_scanner = (Inr out, s')
     \<and> laser_scan ready_scanner = Some three_beam_output
     \<and> timestamp three_beam_output = 0
     \<and> beam_end_points three_beam_output = []
     \<and> scanner_state ready_scanner = Some (PList [PNum 5, PNum 1, PNum 0])
     \<and> laser_scan s' = Some out
     \<and> scanner_state s' = Some (PList [PNum 0, PNum 5, PNum 0])
     \<and> timestamp out = 7
     \<and> state out = [PNum 0, PNum 5, PNum 0]
     \<and> beam_end_points out = [(0, 1), (4, 5), (0, 9)]"
proof -
  let ?m = "\<lparr>boundary_coords = room, obstacle_list = [block]\<rparr>"
  have h1: "map_prepared ready_scanner" and h2: "scanner_prepared ready_scanner"
    and h3: "scanner_map ready_scanner = Some ?m"
    and h4: "laser_scan ready_scanner = Some three_beam_output"
    and st: "scanner_state ready_scanner = Some (PList [PNum 5, PNum 1, PNum 0])"
    by (simp_all add: ready_scanner_eq)
  have h5: "Polygon box_shapely (boundary_coords ?m) = Inr (Filled room)"
    by (simp add: box_shapely_def room_def)
  have h6: "\<not> contains box_shapely (Filled room) (0, 5)"
    by (simp add: box_eval)
  from early_return_is_refreshed [OF h1 h2 h3 h4 h5 h6, of 7 0]
  obtain out s' where
    r: "scan box_shapely 7 (PList [PNum 0, PNum 5, PNum 0]) ready_scanner = (Inr out, s')"
    and l: "laser_scan s' = Some out"
    and p: "scanner_state s' = Some (PList [PNum 0, PNum 5, PNum 0])"
    and ts: "timestamp out = 7"
    and so: "state out = [PNum 0, PNum 5, PNum 0]"
    and ep: "beam_end_points out =
           map (\<lambda>a. (0 + range_max three_beam_output * cos (0 + a),
                      5 + range_max three_beam_output * sin (0 + a)))
             (angles three_beam_output)"
    by blast
  have ep': "beam_end_points out = [(0, 1), (4, 5), (0, 9)]"
    using ep by (simp add: three_beam_output_def)
  have t0: "timestamp three_beam_output = 0" "beam_end_points three_beam_output = []"
    by (simp_all add: three_beam_output_def)
  show ?thesis using r h4 t0 st l p ts so ep' by blast
qed

section \<open>Rejected scan calls\<close>

text \<open>
  C6, as stated, fails. A pose that is a list of three components of which one is not a
  number passes the guard of \<open>scan\<close>, which tests the type \<open>list\<close> and the length 3
  only. The call then fails with \<open>TypeError\<close> inside \<open>init_beams\<close>, after the pose and
  the time stamp have been stored and the ranges reset: on the loaded scanner of the
  scenario the pose changes, the time stamp changes from 0 to 7 and the ranges change
  from \<open>[]\<close> to \<open>[4, 4, 4]\<close>.
\<close>

theorem scan_nonnumeric_pose_counterexample:
  "fst (scan box_shapely 7 (PList [PStr ''a'', PNum 1, PNum 0]) ready_scanner) = Inl TypeError
   \<and> scanner_state ready_scanner = Some (PList [PNum 5, PNum 1, PNum 0])
   \<and> scanner_state (snd (scan box_shapely 7 (PList [PStr ''a'', PNum 1, PNum 0]) ready_scanner))
       = Some (PList [PStr ''a'', PNum 1, PNum 0])
   \<and> map_option timestamp (laser_scan ready_scanner) = Some 0
   \<and> map_option timestamp
        (laser_scan (snd (scan box_shapely 7 (PList [PStr ''a'', PNum 1, PNum 0]) ready_scanner)))
       = Some 7
   \<and> map_option ranges (laser_scan ready_scanner) = Some []
   \<and> map_option ranges
        (laser_scan (snd (scan box_shapely 7 (PList [PStr ''a'', PNum 1, PNum 0]) ready_scanner)))
       = Some [4, 4, 4]"
  by (simp add: ready_scanner_eq scan_def init_beams_def three_beam_output_def numeral_3_eq_3)

text \<open>
  C6, amended: every scan call made before the map is loaded, or before the scanner is
  loaded, or with a pose that is not a list of exactly three components, raises
  \<open>ValueError\<close> and leaves the whole scanner, with its stored pose, time stamp, ranges
  and end points, unchanged.
\<close>

theorem scan_rejects_without_effect:
  "\<not> map_prepared s \<or> \<not> scanner_prepared s \<or> \<not> is_list pose \<or> length (items pose) \<noteq> 3
     \<Longrightarrow> scan ops t pose s = (Inl ValueError, s)"
  by (auto simp: scan_def)

theorem scan_rejects_without_effect_witness:
  "scan box_shapely 7 (PList [PNum 5, PNum 1, PNum 0]) (LaserScanner_init three_beams)
     = (Inl ValueError, LaserScanner_init three_beams)
   \<and> scan box_shapely 7 (PList [PNum 5, PNum 1, PNum 0])
       (load_map room [block] (LaserScanner_init three_beams))
     = (Inl ValueError, load_map room [block] (LaserScanner_init three_beams))
   \<and> scan box_shapely 7 (PTuple [PNum 5, PNum 1, PNum 0]) ready_scanner
     = (Inl ValueError, ready_scanner)
   \<and> scan box_shapely 7 (PList [PNum 5, PNum 1]) ready_scanner = (Inl ValueError, ready_scanner)"
proof -
  have a: "scan box_shapely 7 (PList [PNum 5, PNum 1, PNum 0]) (LaserScanner_init three_beams)
     = (Inl ValueError, LaserScanner_init three_beams)"
    by (rule scan_rejects_without_effect) (simp add: LaserScanner_init_def)
  have b: "scan box_shapely 7 (PList [PNum 5, PNum 1, PNum 0])
       (load_map room [block] (LaserScanner_init three_beams))
     = (Inl ValueError, load_map room [block] (LaserScanner_init three_beams))"
    by (rule scan_rejects_without_effect) (simp add: LaserScanner_init_def load_map_def)
  have c: "scan box_shapely 7 (PTuple [PNum 5, PNum 1, PNum 0]) ready_scanner
     = (Inl ValueError, ready_scanner)"
    by (rule scan_rejects_without_effect) simp
  have d: "scan box_shapely 7 (PList [PNum 5, PNum 1]) ready_scanner = (Inl ValueError, ready_scanner)"
    by (rule scan_rejects_without_effect) simp
  show ?thesis using a b c d by blast
qed

section \<open>The length invariant of the buffer\<close>

lemma init_beams_frame:
  assumes "init_beams pos h ls = (r, ls')"
  shows "ls' = ls\<lparr>state := state ls', ranges := ranges ls', beam_end_points := beam_end_points ls'\<rparr>"
    and "r = Inr () \<Longrightarrow> length (ranges ls') = length (angles ls') \<and>
                         length (beam_end_points ls') = length (angles ls')"
proof -
  show "ls' = ls\<lparr>state := state ls', ranges := ranges ls', beam_end_points := beam_end_points ls'\<rparr>"
  proof (cases "length pos < 2")
    case True
    then show ?thesis using assms by (auto simp: init_beams_def)
  next
    case False
    let ?ls0 = "ls\<lparr>state := [pos ! 0, pos ! 1, h], beam_end_points := [],
                   ranges := replicate (length (angles ls)) (range_max ls)\<rparr>"
    have "init_beams_loop pos h (angles ls) ?ls0 = (r, ls')"
      using assms False by (simp add: init_beams_def)
    from init_beams_loop_frame[OF this]
    have e: "ls' = ?ls0\<lparr>beam_end_points := beam_end_points ls'\<rparr>" by blast
    have "state ls' = [pos ! 0, pos ! 1, h]"
      "ranges ls' = replicate (length (angles ls)) (range_max ls)"
      by (subst e, simp)+
    then show ?thesis by (subst e) simp
  qed
  show "length (ranges ls') = length (angles ls') \<and>
        length (beam_end_points ls') = length (angles ls')" if "r = Inr ()"
  proof (cases "length pos < 2")
    case True
    then show ?thesis using assms that by (auto simp: init_beams_def)
  next
    case False
    let ?ls0 = "ls\<lparr>state := [pos ! 0, pos ! 1, h], beam_end_points := [],
                   ranges := replicate (length (angles ls)) (range_max ls)\<rparr>"
    have "init_beams_loop pos h (angles ls) ?ls0 = (r, ls')"
      using assms False by (simp add: init_beams_def)
    from init_beams_loop_frame[OF this] that
    have e: "ls' = ?ls0\<lparr>beam_end_points := beam_end_points ls'\<rparr>"
      and n: "length (beam_end_points ls') = length (beam_end_points ?ls0) + length (angles ls)"
      by blast+
    have "ranges ls' = replicate (length (angles ls)) (range_max ls)" "angles ls' = angles ls"
      by (subst e, simp)+
    then show ?thesis using n by simp
  qed
qed

lemma scan_cast_Inr:
  assumes "scan_cast ops t cs ls self = (Inr out, s')" "laser_scan self = Some ls"
  shows "laser_scan s' = Some out \<and> angles out = angles ls \<and>
         length (ranges out) = length (ranges ls) \<and>
         length (beam_end_points out) = length (beam_end_points ls)"
  using assms
  by (auto simp: scan_cast_def update_ranges_and_beams_def
           split: option.splits sum.splits if_splits prod.splits)

lemma scan_Inr_lengths:
  assumes "scan ops t pose s = (Inr out, s')"
  shows "laser_scan s' = Some out \<and> length (ranges out) = length (angles out) \<and>
         length (beam_end_points out) = length (angles out)"
proof -
  from assms have g: "map_prepared s" "scanner_prepared s"
    by (auto simp: scan_def split: if_splits)
  from assms g have l3: "is_list pose \<and> length (items pose) = 3"
    by (auto simp: scan_def split: if_splits)
  let ?s1 = "s\<lparr>scanner_state := Some pose\<rparr>"
  from assms g l3 obtain ls0 where ls0: "laser_scan s = Some ls0"
    by (cases "laser_scan s") (auto simp: scan_def)
  obtain r ls1 where ib: "init_beams (take 2 (items pose)) (items pose ! 2)
                            (ls0\<lparr>timestamp := t\<rparr>) = (r, ls1)"
    by (cases "init_beams (take 2 (items pose)) (items pose ! 2) (ls0\<lparr>timestamp := t\<rparr>)")
  from assms g l3 ls0 ib have r: "r = Inr ()"
    by (cases r) (auto simp: scan_def)
  from assms g l3 ls0 ib r have sc: "scan_cast ops t (items pose) ls1
      (?s1\<lparr>laser_scan := Some ls1\<rparr>) = (Inr out, s')"
    by (simp add: scan_def)
  have "laser_scan (?s1\<lparr>laser_scan := Some ls1\<rparr>) = Some ls1" by simp
  from scan_cast_Inr[OF sc this] init_beams_frame(2)[OF ib r]
  show ?thesis by simp
qed

text \<open>
  C3, as stated, fails for \<open>update_ranges_and_beams\<close>: it compares the new lists with
  the current buffers, not with the angles. On the object the constructor builds for the
  three-beam sensor, whose buffers are still empty, an update with two empty lists
  returns normally and leaves 0 ranges and 0 end points for 3 angles.
\<close>

theorem buffer_lengths_counterexample:
  "fst (update_ranges_and_beams 1 [] [] three_beam_output) = Inr ()
   \<and> length (ranges (snd (update_ranges_and_beams 1 [] [] three_beam_output))) = 0
   \<and> length (beam_end_points (snd (update_ranges_and_beams 1 [] [] three_beam_output))) = 0
   \<and> length (angles (snd (update_ranges_and_beams 1 [] [] three_beam_output))) = 3
   \<and> from_config exact_numerics three_beams = (Inr three_beam_output, [])"
  by (simp add: update_ranges_and_beams_def three_beam_output_def three_beams_output [unfolded three_beam_output_def])

text \<open>
  C3, amended: after every \<open>init_beams\<close> that returns normally, and after every \<open>scan\<close>
  that returns normally (the early return included), the ranges, the end points and the
  angles of the scan state have the same length; an \<open>update_ranges_and_beams\<close> that
  returns normally has replaced the ranges and the end points together by the new lists,
  and the three lengths are equal after it whenever they were equal before it.
\<close>

theorem buffer_lengths:
  "(init_beams pos h ls = (Inr (), ls') \<longrightarrow>
      length (ranges ls') = length (angles ls') \<and>
      length (beam_end_points ls') = length (angles ls'))
   \<and> (scan ops t pose s = (Inr out, s') \<longrightarrow>
      laser_scan s' = Some out \<and>
      length (ranges out) = length (angles out) \<and>
      length (beam_end_points out) = length (angles out))
   \<and> (update_ranges_and_beams u nr nb b = (Inr (), b') \<longrightarrow>
      ranges b' = nr \<and> beam_end_points b' = nb \<and>
      (length (ranges b) = length (angles b) \<and>
       length (beam_end_points b) = length (angles b) \<longrightarrow>
         length (ranges b') = length (angles b') \<and>
         length (beam_end_points b') = length (angles b')))"
proof -
  have a: "init_beams pos h ls = (Inr (), ls') \<longrightarrow>
      length (ranges ls') = length (angles ls') \<and>
      length (beam_end_points ls') = length (angles ls')"
    using init_beams_frame(2) by blast
  have b: "scan ops t pose s = (Inr out, s') \<longrightarrow>
      laser_scan s' = Some out \<and>
      length (ranges out) = length (angles out) \<and>
      length (beam_end_points out) = length (angles out)"
    using scan_Inr_lengths by blast
  have c: "update_ranges_and_beams u nr nb b = (Inr (), b') \<longrightarrow>
      ranges b' = nr \<and> beam_end_points b' = nb \<and>
      (length (ranges b) = length (angles b) \<and>
       length (beam_end_points b) = length (angles b) \<longrightarrow>
         length (ranges b') = length (angles b') \<and>
         length (beam_end_points b') = length (angles b'))"
    by (auto simp: update_ranges_and_beams_def split: if_splits)
  show ?thesis using a b c by blast
qed

theorem buffer_lengths_witness:
  "init_beams [PNum 5, PNum 1] (PNum 0) three_beam_output =
     (Inr (), three_beam_output\<lparr>state := [PNum 5, PNum 1, PNum 0],
                beam_end_points := [(5, - 3), (9, 1), (5, 5)], ranges := [4, 4, 4]\<rparr>)
   \<and> length [4, 4, 4 :: real] = length (angles three_beam_output)
   \<and> (\<exists>out s'. scan box_shapely 7 (PList [PNum 12, PNum 5, PNum 0]) ready_scanner = (Inr out, s')
          \<and> length (ranges out) = length (angles out)
          \<and> length (beam_end_points out) = length (angles out))
   \<and> update_ranges_and_beams 2 [1, 4, 3] [(5, 0), (9, 1), (5, 4)]
        (three_beam_output\<lparr>state := [PNum 5, PNum 1, PNum 0],
                beam_end_points := [(5, - 3), (9, 1), (5, 5)], ranges := [4, 4, 4]\<rparr>)
      = (Inr (), three_beam_output\<lparr>timestamp := 2, state := [PNum 5, PNum 1, PNum 0],
                beam_end_points := [(5, 0), (9, 1), (5, 4)], ranges := [1, 4, 3]\<rparr>)
   \<and> length [1, 4, 3 :: real] = length (angles three_beam_output)"
proof -
  let ?ls1 = "three_beam_output\<lparr>state := [PNum 5, PNum 1, PNum 0],
                beam_end_points := [(5, - 3), (9, 1), (5, 5)], ranges := [4, 4, 4]\<rparr>"
  let ?ls2 = "three_beam_output\<lparr>timestamp := 2, state := [PNum 5, PNum 1, PNum 0],
                beam_end_points := [(5, 0), (9, 1), (5, 4)], ranges := [1, 4, 3]\<rparr>"
  have i: "init_beams [PNum 5, PNum 1] (PNum 0) three_beam_output = (Inr (), ?ls1)"
    by (simp add: init_beams_num three_beam_output_def numeral_3_eq_3)
  have u: "update_ranges_and_beams 2 [1, 4, 3] [(5, 0), (9, 1), (5, 4)] ?ls1 = (Inr (), ?ls2)"
    by (simp add: update_ranges_and_beams_def)
  obtain r s' where sc: "scan box_shapely 7 (PList [PNum 12, PNum 5, PNum 0]) ready_scanner = (r, s')"
    by (cases "scan box_shapely 7 (PList [PNum 12, PNum 5, PNum 0]) ready_scanner")
  have "\<not> isl r"
    using sc scan_outside [of ready_scanner "\<lparr>boundary_coords = room, obstacle_list = [block]\<rparr>"
        three_beam_output box_shapely "Filled room" 12 5 7 0]
    by (simp add: ready_scanner_eq box_eval)
  then obtain out where r: "r = Inr out" by (cases r) auto
  note t = buffer_lengths [where pos = "[PNum 5, PNum 1]" and h = "PNum 0"
      and ls = three_beam_output and ls' = ?ls1 and ops = box_shapely and t = 7
      and pose = "PList [PNum 12, PNum 5, PNum 0]" and s = ready_scanner and out = out
      and s' = s' and u = 2 and nr = "[1, 4, 3]" and nb = "[(5, 0), (9, 1), (5, 4)]"
      and b = ?ls1 and b' = ?ls2]
  have l1: "length [4, 4, 4 :: real] = length (angles three_beam_output)"
    using t i by simp
  have l2: "length (ranges out) = length (angles out) \<and>
            length (beam_end_points out) = length (angles out)"
    using t sc r by simp
  have l3: "length [1, 4, 3 :: real] = length (angles three_beam_output)"
    using t u l1 by (simp add: three_beam_output_def)
  show ?thesis using i u l1 l2 l3 sc r by blast
qed

section \<open>Scanning is a function of time stamp, pose, map and sensor\<close>

lemma forget_fields:
  assumes "forget ls2 = forget ls1"
  shows "angles ls2 = angles ls1" "range_max ls2 = range_max ls1"
    "ls2\<lparr>timestamp := t, state := a, beam_end_points := b, ranges := c\<rparr> =
     ls1\<lparr>timestamp := t, state := a, beam_end_points := b, ranges := c\<rparr>"
proof -
  have "angles (forget ls2) = angles (forget ls1)" by (simp only: assms)
  then show "angles ls2 = angles ls1" by simp
  have "range_max (forget ls2) = range_max (forget ls1)" by (simp only: assms)
  then show "range_max ls2 = range_max ls1" by simp
  have "(forget ls2)\<lparr>timestamp := t, state := a, beam_end_points := b, ranges := c\<rparr> =
        (forget ls1)\<lparr>timestamp := t, state := a, beam_end_points := b, ranges := c\<rparr>"
    by (simp only: assms)
  then show "ls2\<lparr>timestamp := t, state := a, beam_end_points := b, ranges := c\<rparr> =
     ls1\<lparr>timestamp := t, state := a, beam_end_points := b, ranges := c\<rparr>" by simp
qed

lemma init_beams_forgets:
  assumes "forget ls2 = forget ls1" "2 \<le> length pos"
  shows "init_beams pos h (ls2\<lparr>timestamp := t\<rparr>) = init_beams pos h (ls1\<lparr>timestamp := t\<rparr>)"
  using assms(2) forget_fields[OF assms(1)]
  by (simp add: init_beams_def)

lemma init_beams_keeps:
  assumes "init_beams pos h ls = (r, ls')"
  shows "forget ls' = forget ls"
  by (subst init_beams_frame(1)[OF assms]) simp

lemma scan_cast_fst_map:
  "scanner_map s2 = scanner_map s1 \<Longrightarrow>
     fst (scan_cast ops t cs ls s2) = fst (scan_cast ops t cs ls s1)"
  by (simp add: scan_cast_def split: option.splits sum.splits prod.splits)

lemma scan_cast_keeps:
  assumes "laser_scan self = Some ls"
  shows "map_prepared (snd (scan_cast ops t cs ls self)) = map_prepared self
       \<and> scanner_prepared (snd (scan_cast ops t cs ls self)) = scanner_prepared self
       \<and> scanner_map (snd (scan_cast ops t cs ls self)) = scanner_map self
       \<and> map_option forget (laser_scan (snd (scan_cast ops t cs ls self))) = Some (forget ls)"
  using assms
  by (auto simp: scan_cast_def update_ranges_and_beams_def
           split: option.splits sum.splits prod.splits)


lemma scan_keeps:
  "map_prepared (snd (scan ops t pose s)) = map_prepared s
   \<and> scanner_prepared (snd (scan ops t pose s)) = scanner_prepared s
   \<and> scanner_map (snd (scan ops t pose s)) = scanner_map s
   \<and> map_option forget (laser_scan (snd (scan ops t pose s))) = map_option forget (laser_scan s)"
proof (cases "map_prepared s \<and> scanner_prepared s \<and> is_list pose \<and> length (items pose) = 3")
  case False
  then show ?thesis by (auto simp: scan_def)
next
  case g: True
  show ?thesis
  proof (cases "laser_scan s")
    case None
    then show ?thesis using g by (simp add: scan_def)
  next
    case (Some ls0)
    obtain r ls1 where ib: "init_beams (take 2 (items pose)) (items pose ! 2)
                              (ls0\<lparr>timestamp := t\<rparr>) = (r, ls1)"
      by (cases "init_beams (take 2 (items pose)) (items pose ! 2) (ls0\<lparr>timestamp := t\<rparr>)")
    have f1: "forget ls1 = forget ls0" using init_beams_keeps[OF ib] by simp
    let ?s1 = "s\<lparr>scanner_state := Some pose, laser_scan := Some ls1\<rparr>"
    show ?thesis
    proof (cases r)
      case (Inl e)
      then show ?thesis using g Some ib f1 by (simp add: scan_def)
    next
      case (Inr u)
      have l: "laser_scan ?s1 = Some ls1" by simp
      have e: "scan ops t pose s = scan_cast ops t (items pose) ls1 ?s1"
        using g Some ib Inr by (simp add: scan_def)
      show ?thesis
        using scan_cast_keeps[OF l, of ops t "items pose"] f1 Some
        by (simp add: e)
    qed
  qed
qed

lemma scan_fst_static:
  assumes "map_prepared s2 = map_prepared s1" "scanner_prepared s2 = scanner_prepared s1"
    and "scanner_map s2 = scanner_map s1"
    and "map_option forget (laser_scan s2) = map_option forget (laser_scan s1)"
  shows "fst (scan ops t pose s2) = fst (scan ops t pose s1)"
proof (cases "map_prepared s1 \<and> scanner_prepared s1 \<and> is_list pose \<and> length (items pose) = 3")
  case False
  then show ?thesis using assms(1,2) by (auto simp: scan_def)
next
  case g: True
  show ?thesis
  proof (cases "laser_scan s1")
    case None
    then have "laser_scan s2 = None" using assms(4) by simp
    then show ?thesis using None g assms(1,2) by (simp add: scan_def)
  next
    case (Some ls1)
    then obtain ls2 where s2: "laser_scan s2 = Some ls2" and f: "forget ls2 = forget ls1"
      using assms(4) by (cases "laser_scan s2") auto
    have len: "2 \<le> length (take 2 (items pose))" using g by simp
    have ib: "init_beams (take 2 (items pose)) (items pose ! 2) (ls2\<lparr>timestamp := t\<rparr>)
            = init_beams (take 2 (items pose)) (items pose ! 2) (ls1\<lparr>timestamp := t\<rparr>)"
      by (rule init_beams_forgets[OF f len])
    obtain r l where rl: "init_beams (take 2 (items pose)) (items pose ! 2)
                              (ls1\<lparr>timestamp := t\<rparr>) = (r, l)"
      by (cases "init_beams (take 2 (items pose)) (items pose ! 2) (ls1\<lparr>timestamp := t\<rparr>)")
    show ?thesis
    proof (cases r)
      case (Inl e)
      then show ?thesis using g assms(1,2) Some s2 ib rl by (simp add: scan_def)
    next
      case (Inr u)
      have m: "scanner_map (s2\<lparr>scanner_state := Some pose, laser_scan := Some l\<rparr>) =
               scanner_map (s1\<lparr>scanner_state := Some pose, laser_scan := Some l\<rparr>)"
        using assms(3) by simp
      show ?thesis
        using g assms(1,2) Some s2 ib rl Inr scan_cast_fst_map[OF m, of ops t "items pose" l]
        by (simp add: scan_def)
    qed
  qed
qed

lemma scan_cast_snd_map:
  "scanner_map s2 = scanner_map s1 \<Longrightarrow> laser_scan s2 = laser_scan s1 \<Longrightarrow>
     laser_scan (snd (scan_cast ops t cs ls s2)) = laser_scan (snd (scan_cast ops t cs ls s1))"
  by (simp add: scan_cast_def split: option.splits sum.splits prod.splits)

lemma scan_snd_static:
  assumes "map_prepared s2 = map_prepared s1" "scanner_prepared s2 = scanner_prepared s1"
    and "scanner_map s2 = scanner_map s1"
    and "map_option forget (laser_scan s2) = map_option forget (laser_scan s1)"
    and g: "map_prepared s1 \<and> scanner_prepared s1 \<and> is_list pose \<and> length (items pose) = 3"
  shows "laser_scan (snd (scan ops t pose s2)) = laser_scan (snd (scan ops t pose s1))"
proof (cases "laser_scan s1")
  case None
  then have "laser_scan s2 = None" using assms(4) by simp
  then show ?thesis using None g assms(1,2) by (simp add: scan_def)
next
  case (Some ls1)
  then obtain ls2 where s2: "laser_scan s2 = Some ls2" and f: "forget ls2 = forget ls1"
    using assms(4) by (cases "laser_scan s2") auto
  have len: "2 \<le> length (take 2 (items pose))" using g by simp
  have ib: "init_beams (take 2 (items pose)) (items pose ! 2) (ls2\<lparr>timestamp := t\<rparr>)
          = init_beams (take 2 (items pose)) (items pose ! 2) (ls1\<lparr>timestamp := t\<rparr>)"
    by (rule init_beams_forgets[OF f len])
  obtain r l where rl: "init_beams (take 2 (items pose)) (items pose ! 2)
                            (ls1\<lparr>timestamp := t\<rparr>) = (r, l)"
    by (cases "init_beams (take 2 (items pose)) (items pose ! 2) (ls1\<lparr>timestamp := t\<rparr>)")
  show ?thesis
  proof (cases r)
    case (Inl e)
    then show ?thesis using g assms(1,2) Some s2 ib rl by (simp add: scan_def)
  next
    case (Inr u)
    have m: "scanner_map (s2\<lparr>scanner_state := Some pose, laser_scan := Some l\<rparr>) =
             scanner_map (s1\<lparr>scanner_state := Some pose, laser_scan := Some l\<rparr>)"
      "laser_scan (s2\<lparr>scanner_state := Some pose, laser_scan := Some l\<rparr>) =
             laser_scan (s1\<lparr>scanner_state := Some pose, laser_scan := Some l\<rparr>)"
      using assms(3) by simp_all
    show ?thesis
      using g assms(1,2) Some s2 ib rl Inr scan_cast_snd_map[OF m, of ops t "items pose" l]
      by (simp add: scan_def)
  qed
qed

text \<open>
  C9: the result of \<open>scan\<close> at a time stamp and a pose (the returned object with its
  ranges and end points, or the exception) is the same after any earlier scan of the same
  scanner as without it; in particular calling \<open>scan\<close> twice with the same time stamp
  and pose yields the same ranges and end points, also in the stored scan state.
\<close>

theorem scan_deterministic:
  "fst (scan ops t pose (snd (scan ops t' pose' s))) = fst (scan ops t pose s)
   \<and> laser_scan (snd (scan ops t pose (snd (scan ops t pose s))))
       = laser_scan (snd (scan ops t pose s))"
proof -
  have k: "map_prepared (snd (scan ops t' pose' s)) = map_prepared s"
    "scanner_prepared (snd (scan ops t' pose' s)) = scanner_prepared s"
    "scanner_map (snd (scan ops t' pose' s)) = scanner_map s"
    "map_option forget (laser_scan (snd (scan ops t' pose' s))) = map_option forget (laser_scan s)"
    for t' pose'
    using scan_keeps[of ops t' pose' s] by simp_all
  have a: "fst (scan ops t pose (snd (scan ops t' pose' s))) = fst (scan ops t pose s)"
    by (rule scan_fst_static[OF k])
  have b: "laser_scan (snd (scan ops t pose (snd (scan ops t pose s))))
       = laser_scan (snd (scan ops t pose s))"
  proof (cases "map_prepared s \<and> scanner_prepared s \<and> is_list pose \<and> length (items pose) = 3")
    case True
    show ?thesis by (rule scan_snd_static[OF k True])
  next
    case False
    then have "scan ops t pose s = (Inl ValueError, s)" by (auto simp: scan_def)
    then show ?thesis by simp
  qed
  show ?thesis using a b by blast
qed

lemma ready_scan_inside:
  "\<exists>out s'. scan box_shapely 3 (PList [PNum 5, PNum 1, PNum 0]) ready_scanner = (Inr out, s')
     \<and> ranges out = [1, 4, 3] \<and> beam_end_points out = [(5, 0), (9, 1), (5, 4)]"
proof -
  let ?m = "\<lparr>boundary_coords = room, obstacle_list = [block]\<rparr>"
  let ?beam = "\<lambda>a. Curve [(5, 1), (5 + 4 * cos (0 + a), 1 + 4 * sin (0 + a))]"
  have h1: "map_prepared ready_scanner" and h2: "scanner_prepared ready_scanner"
    and h3: "scanner_map ready_scanner = Some ?m"
    and h4: "laser_scan ready_scanner = Some three_beam_output"
    by (simp_all add: ready_scanner_eq)
  have h5: "Polygon box_shapely (boundary_coords ?m) = Inr (Filled room)"
    by (simp add: box_shapely_def room_def)
  have h6: "contains box_shapely (Filled room) (5, 1)"
    by (simp add: box_eval)
  have h7: "build_polygons box_shapely (obstacle_list ?m) = Inr [Filled block]"
    by (simp add: box_shapely_def block_def)
  have h8: "boundary_line box_shapely (boundary_coords ?m) = Inr (Curve (room @ [(0, 0)]))"
    by (simp add: boundary_line_def box_shapely_def room_def)
  have h9: "\<forall>a\<in>set (angles three_beam_output).
      LineString box_shapely [(5, 1), (5 + range_max three_beam_output * cos (0 + a),
                                       1 + range_max three_beam_output * sin (0 + a))]
        = Inr (?beam a)"
    by (simp add: box_shapely_def three_beam_output_def)
  obtain r s' where sc: "scan box_shapely 3 (PList [PNum 5, PNum 1, PNum 0]) ready_scanner = (r, s')"
    by (cases "scan box_shapely 3 (PList [PNum 5, PNum 1, PNum 0]) ready_scanner")
  let ?out = "three_beam_output\<lparr>timestamp := 3, state := [PNum 5, PNum 1, PNum 0],
           beam_end_points :=
             map (\<lambda>a. (5 + closest_loop box_shapely (?beam a) (5, 1)
                                ([Filled block] @ [Curve (room @ [(0, 0)])])
                                (range_max three_beam_output) * cos (0 + a),
                        1 + closest_loop box_shapely (?beam a) (5, 1)
                                ([Filled block] @ [Curve (room @ [(0, 0)])])
                                (range_max three_beam_output) * sin (0 + a)))
               (angles three_beam_output),
           ranges := map (\<lambda>a. closest_loop box_shapely (?beam a) (5, 1)
                                ([Filled block] @ [Curve (room @ [(0, 0)])])
                                (range_max three_beam_output))
                       (angles three_beam_output)\<rparr>"
  have o: "r = Inr ?out"
    using sc scan_inside [OF h1 h2 h3 h4 h5 h6 h7 h8 h9, of 3] by simp
  have rg: "ranges ?out = [1, 4, 3]"
    by (simp add: three_beam_output_def box_eval)
  have ep: "beam_end_points ?out = [(5, 0), (9, 1), (5, 4)]"
    by (simp add: three_beam_output_def box_eval)
  show ?thesis using sc o rg ep by blast
qed

theorem scan_deterministic_witness:
  "\<exists>out. fst (scan box_shapely 3 (PList [PNum 5, PNum 1, PNum 0])
              (snd (scan box_shapely 9 (PList [PNum 12, PNum 5, PNum 0]) ready_scanner))) = Inr out
        \<and> fst (scan box_shapely 3 (PList [PNum 5, PNum 1, PNum 0]) ready_scanner) = Inr out
        \<and> ranges out = [1, 4, 3] \<and> beam_end_points out = [(5, 0), (9, 1), (5, 4)]"
proof -
  from ready_scan_inside obtain out s' where
    r: "scan box_shapely 3 (PList [PNum 5, PNum 1, PNum 0]) ready_scanner = (Inr out, s')"
    and v: "ranges out = [1, 4, 3]" "beam_end_points out = [(5, 0), (9, 1), (5, 4)]"
    by blast
  have "fst (scan box_shapely 3 (PList [PNum 5, PNum 1, PNum 0])
              (snd (scan box_shapely 9 (PList [PNum 12, PNum 5, PNum 0]) ready_scanner))) = Inr out"
    using scan_deterministic [of box_shapely 3 "PList [PNum 5, PNum 1, PNum 0]" 9
        "PList [PNum 12, PNum 5, PNum 0]" ready_scanner] r by simp
  then show ?thesis using r v by simp
qed

section \<open>Registering geometry\<close>

text \<open>\<open>register_boundary\<close> accepts exactly the non-empty lists whose first element has
  length 2.\<close>

lemma register_boundary_accepts:
  "fst (register_boundary vertices m) = Inr () \<longleftrightarrow>
     (\<exists>v vs. vertices = PList (v # vs) \<and> py_len v = Inr 2)"
  by (cases vertices)
     (auto simp: register_boundary_def first_vertex_check_def split: list.splits sum.splits)

text \<open>
  C7 says that \<open>register_boundary\<close> and \<open>register_obstacle\<close> fail when any vertex is not
  2-dimensional. The code tests \<open>len(vertices[0])\<close> only, under the message
  \<open>All coordinates must be 2-dimension.\<close>: a boundary whose second vertex has three
  coordinates is stored, and so is an obstacle whose later vertices have three
  coordinates or are not vertices at all. An empty vertex list fails, with the
  \<open>IndexError\<close> of \<open>vertices[0]\<close>.
\<close>

theorem register_checks_first_vertex_only:
  "register_boundary (PList [PTuple [PNum 0, PNum 0], PTuple [PNum 1, PNum 2, PNum 3]]) m
     = (Inr (), m\<lparr>gm_boundary_coords :=
                    PList [PTuple [PNum 0, PNum 0], PTuple [PNum 1, PNum 2, PNum 3]]\<rparr>)
   \<and> register_obstacle
       (PDict [(PStr ''id_'', PNum 1), (PStr ''name'', PStr ''obstacle_1''),
               (PStr ''vertices'',
                PList [PTuple [PNum 0, PNum 0], PTuple [PNum 1, PNum 2, PNum 3], PNum 7])]) m
     = (Inr (), m\<lparr>obstacle_info_dict := (obstacle_info_dict m)(PNum 1 \<mapsto>
         PDict [(PStr ''id_'', PNum 1), (PStr ''name'', PStr ''obstacle_1''),
               (PStr ''vertices'',
                PList [PTuple [PNum 0, PNum 0], PTuple [PNum 1, PNum 2, PNum 3], PNum 7])])\<rparr>)
   \<and> register_boundary (PList []) m = (Inl IndexError, m)"
  by (simp add: register_boundary_def register_obstacle_def first_vertex_check_def)

end
